theory Spec2Isabelle
  imports Complex_Main "HOL-Library.AList"
begin

section \<open>The styled processor of linaria (packages/react/src/processors/styled.ts)\<close>

text \<open>
  A shallow embedding of \<^verbatim>\<open>StyledProcessor\<close> and of \<^verbatim>\<open>throwIfInvalid\<close>.
  JavaScript strings are modelled as \<^typ>\<open>string\<close>, the private fields of the class as
  fields of a record that every method takes and returns, exceptions as the left
  summand of a sum type, and \<^verbatim>\<open>console.warn\<close> as a list of emitted messages.
  Functions of other packages (the module resolver, the glob matcher, the slug
  helpers, the serializable predicate) are parameters, collected in records.
\<close>

subsection \<open>Strings and numbers\<close>

definition apostrophe :: string where
  "apostrophe = [CHR 0x27]"

definition backtick :: string where
  "backtick = [CHR 0x60]"

text \<open>The character U+2026 (horizontal ellipsis), as its UTF-8 bytes.\<close>

definition ellipsis :: string where
  "ellipsis = [CHR 0xE2, CHR 0x80, CHR 0xA6]"

text \<open>
  The counter \<^verbatim>\<open>#variableIdx\<close> is a JavaScript number that starts at 0 and only ever
  grows by one; such a number is an exact integer below \<open>2^53\<close>, and is modelled as a
  natural number. Its rendering in a template literal is the decimal numeral.
\<close>

fun Number_toString :: "nat \<Rightarrow> string" where
  "Number_toString n =
     (if n < 10 then [''0123456789'' ! n]
      else Number_toString (n div 10) @ [''0123456789'' ! (n mod 10)])"

declare Number_toString.simps [simp del]

datatype js_number = Finite real | NaN | Infinity | NegInfinity

text \<open>
  The values \<^verbatim>\<open>throwIfInvalid\<close> inspects: primitives, functions with the properties
  visible on them (own or inherited), and objects with the name of their constructor
  and their properties.
\<close>

datatype js_value =
    JSUndefined
  | JSNull
  | JSBoolean bool
  | JSNumber js_number
  | JSString string
  | JSFunction "(string \<times> js_value) list"
  | JSObject string "(string \<times> js_value) list"

datatype js_type = T_undefined | T_object | T_boolean | T_number | T_string | T_function

fun typeof :: "js_value \<Rightarrow> js_type" where
  "typeof JSUndefined = T_undefined"
| "typeof JSNull = T_object"
| "typeof (JSBoolean b) = T_boolean"
| "typeof (JSNumber n) = T_number"
| "typeof (JSString s) = T_string"
| "typeof (JSFunction ps) = T_function"
| "typeof (JSObject c ps) = T_object"

fun Number_isFinite :: "js_value \<Rightarrow> bool" where
  "Number_isFinite (JSNumber (Finite r)) = True"
| "Number_isFinite v = False"

fun truthy :: "js_value \<Rightarrow> bool" where
  "truthy JSUndefined = False"
| "truthy JSNull = False"
| "truthy (JSBoolean b) = b"
| "truthy (JSNumber (Finite r)) = (r \<noteq> 0)"
| "truthy (JSNumber NaN) = False"
| "truthy (JSNumber Infinity) = True"
| "truthy (JSNumber NegInfinity) = True"
| "truthy (JSString s) = (s \<noteq> [])"
| "truthy (JSFunction ps) = True"
| "truthy (JSObject c ps) = True"

text \<open>
  Reading a property. On \<^verbatim>\<open>undefined\<close> and \<^verbatim>\<open>null\<close> JavaScript throws; the only reads
  of the source are guarded by the truthiness of the value, so that case is never
  reached and is given \<^verbatim>\<open>undefined\<close>. Primitives have neither a \<^verbatim>\<open>stack\<close> nor a
  \<^verbatim>\<open>message\<close> property.
\<close>

fun get_property :: "js_value \<Rightarrow> string \<Rightarrow> js_value" where
  "get_property (JSFunction ps) k = (case map_of ps k of Some v \<Rightarrow> v | None \<Rightarrow> JSUndefined)"
| "get_property (JSObject c ps) k = (case map_of ps k of Some v \<Rightarrow> v | None \<Rightarrow> JSUndefined)"
| "get_property v k = JSUndefined"

subsection \<open>Syntax trees\<close>

datatype statement = BlockStatement "statement list"

text \<open>
  The nodes the processor builds. A \<open>StringLiteral\<close> carries the optional
  \<^verbatim>\<open>extra.raw\<close> text; \<open>SourceNode\<close> stands for any other node of the original tree.
\<close>

datatype expression =
    Identifier string
  | StringLiteral string "string option"
  | CallExpression expression "expression list"
  | ArrowFunctionExpression "expression list" statement
  | SourceNode string

definition singleQuotedStringLiteral :: "string \<Rightarrow> expression" where
  "singleQuotedStringLiteral v = StringLiteral v (Some (apostrophe @ v @ apostrophe))"

subsection \<open>The data of a processor\<close>

text \<open>
  \<^verbatim>\<open>WrappedNode = string | { node: Identifier; nonLinaria?: true; source: string }\<close>.
  A functional component is the string \<^verbatim>\<open>'FunctionalComponent'\<close>, as in the source.
\<close>

datatype wrapped_node =
    Tag string
  | Wrapped (node_name: string) (nonLinaria: bool) (wrapped_source: string)

datatype const_literal = ConstString string | ConstNumber js_number | ConstBoolean bool | ConstNull

text \<open>
  \<^verbatim>\<open>ExpressionValue\<close>: kind FUNCTION (source), kind CONST (value, source), and kind
  LAZY (the identifier \<^verbatim>\<open>ex\<close>, source, the optional \<^verbatim>\<open>importedFrom\<close>).
\<close>

datatype expression_value =
    FunctionValue string
  | ConstValue const_literal string
  | LazyValue string string "string list option"

datatype template_item = TemplateElement string | TemplateValue expression_value

datatype param =
    Callee expression
  | Call "expression_value list"
  | Member string
  | Template "template_item list"

record variable_context =
  componentName :: string
  componentSlug :: string
  precedingCss :: string
  processor :: string
  source :: string
  unit :: string
  valueSlug :: string

text \<open>
  The \<^verbatim>\<open>index\<close> property of a variable context is a getter that returns the counter
  and increments it. A custom slug function is therefore a computation that may read
  the index any number of times before it returns: \<open>ReadIndex k\<close> reads it once and
  goes on as \<open>k\<close> of the value read.
\<close>

datatype 'a index_reader = Return 'a | ReadIndex "nat \<Rightarrow> 'a index_reader"

primrec run_reader :: "'a index_reader \<Rightarrow> nat \<Rightarrow> 'a \<times> nat" where
  "run_reader (Return x) idx = (x, idx)"
| "run_reader (ReadIndex k) idx = run_reader (k idx) (idx + 1)"

primrec index_reads :: "'a index_reader \<Rightarrow> nat \<Rightarrow> nat" where
  "index_reads (Return x) idx = 0"
| "index_reads (ReadIndex k) idx = Suc (index_reads (k idx) (idx + 1))"

text \<open>
  The option \<^verbatim>\<open>variableNameSlug\<close>: a template string or a function of the context
  (whose result may be \<^verbatim>\<open>undefined\<close>, here \<open>None\<close>).
\<close>

datatype variable_name_slug =
    SlugTemplate string
  | SlugFunction "variable_context \<Rightarrow> string option index_reader"

record processor_options =
  extensions :: "string list"
  variableNameSlug :: "variable_name_slug option"

record interpolation =
  interpolation_id :: string
  interpolation_node :: expression
  interpolation_source :: string
  interpolation_unit :: string

text \<open>
  What the base class \<^verbatim>\<open>TaggedTemplateProcessor\<close> derives from the tag and the
  remaining constructor arguments.
\<close>

record tail_params =
  tail_className :: string
  tail_displayName :: string
  tail_slug :: string
  tail_tagSourceCode :: string
  tail_filename :: string
  tail_options :: processor_options

record styled_processor =
  component :: wrapped_node
  className :: string
  displayName :: string
  slug :: string
  tagSourceCode :: string
  filename :: string
  options :: processor_options
  dependencies :: "expression_value list"
  interpolations :: "interpolation list"
  variableIdx :: nat
  variablesCache :: "string \<rightharpoonup> string"

subsection \<open>The constructor\<close>

datatype param_name = N_callee | N_call | N_member | N_template

datatype constraint = Exactly param_name | OneOf "param_name list" | Any | Rest

fun name_of_param :: "param \<Rightarrow> param_name" where
  "name_of_param (Callee e) = N_callee"
| "name_of_param (Call vs) = N_call"
| "name_of_param (Member m) = N_member"
| "name_of_param (Template t) = N_template"

fun satisfies :: "param \<Rightarrow> constraint \<Rightarrow> bool" where
  "satisfies p (Exactly n) = (name_of_param p = n)"
| "satisfies p (OneOf ns) = (name_of_param p \<in> set ns)"
| "satisfies p Any = True"
| "satisfies p Rest = True"

text \<open>
  The helper \<^verbatim>\<open>validateParams\<close> of the package processor-utils: position by position, up
  to the longer of the two lists, a parameter and a constraint must both be there;
  then \<^verbatim>\<open>'...'\<close> accepts the parameter and whatever follows it, \<^verbatim>\<open>'*'\<close> accepts any one
  parameter, and a name or a list of names must hold the parameter's name. A list of
  two parameters therefore fails \<^verbatim>\<open>['callee', '*', '...']\<close>.
\<close>

fun isValidParams :: "param list \<Rightarrow> constraint list \<Rightarrow> bool" where
  "isValidParams [] [] = True"
| "isValidParams (p # ps) (Rest # cs) = True"
| "isValidParams (p # ps) (c # cs) = (satisfies p c \<and> isValidParams ps cs)"
| "isValidParams ps cs = False"

datatype constructor_error = SKIP | Error string

definition invalid_usage :: string where
  "invalid_usage = ''Invalid usage of '' @ backtick @ ''styled'' @ backtick @ '' tag''"

text \<open>
  The file system and the packages the constructor consults: \<^verbatim>\<open>findPackageJSON\<close>,
  the \<^verbatim>\<open>linaria.components\<close> entry of a parsed package.json (a manifest that was found
  is taken to be readable), \<^verbatim>\<open>dirname\<close> and \<^verbatim>\<open>join\<close> of path, \<^verbatim>\<open>resolve.sync\<close>
  (\<open>None\<close> when it throws) and \<^verbatim>\<open>minimatch\<close>. The name of the file being processed is
  a string, as the constructor's \<^verbatim>\<open>filename!\<close> takes it to be.
\<close>

record environment =
  findPackageJSON :: "string \<Rightarrow> string \<Rightarrow> string option"
  readComponentsMask :: "string \<Rightarrow> string option"
  dirname :: "string \<Rightarrow> string"
  join :: "string \<Rightarrow> string \<Rightarrow> string"
  resolveSync :: "string \<Rightarrow> string \<Rightarrow> string list \<Rightarrow> string option"
  minimatch :: "string \<Rightarrow> string \<Rightarrow> bool"

definition unresolved_warning :: "string \<Rightarrow> string \<Rightarrow> string \<Rightarrow> string" where
  "unresolved_warning importedFrom file value_source =
     ''Can'' @ apostrophe @ ''t resolve '' @ importedFrom @ '' from '' @ file @ ''. If '' @
     value_source @
     '' is another styled component, it should be resolvable with default Node.js resolver. If it'' @
     apostrophe @
     ''s not, please exclude it from the linaria.components mask in package.json.''"

definition posix_slashes :: "string \<Rightarrow> string" where
  "posix_slashes s = map (\<lambda>c. if c = CHR 0x5C then CHR ''/'' else c) s"

text \<open>
  The callback of \<^verbatim>\<open>importedFrom.some\<close>: its result and the warnings it prints.
\<close>

definition isMatched ::
  "environment \<Rightarrow> tail_params \<Rightarrow> string \<Rightarrow> string option \<Rightarrow> string \<Rightarrow> bool \<times> string list" where
  "isMatched env tp value_source selfPkg importedFrom =
     (let importedPkg =
            (case findPackageJSON env importedFrom (tail_filename tp) of
               Some pkg \<Rightarrow> Some pkg
             | None \<Rightarrow> selfPkg)
      in case importedPkg of
           None \<Rightarrow> (False, [])
         | Some pkg \<Rightarrow>
             if pkg = [] then (False, [])
             else
               (let mask = readComponentsMask env pkg in
                if importedPkg = selfPkg \<and> mask = None then (True, [])
                else
                  (case mask of
                     None \<Rightarrow> (False, [])
                   | Some m \<Rightarrow>
                       if m = [] then (False, [])
                       else
                         (let packageDir = dirname env pkg;
                              fullMask = posix_slashes (join env packageDir m)
                          in case resolveSync env importedFrom (dirname env (tail_filename tp))
                                    (extensions (tail_options tp)) of
                               Some fileWithComponent \<Rightarrow>
                                 (minimatch env fileWithComponent fullMask, [])
                             | None \<Rightarrow>
                                 (False,
                                  [unresolved_warning importedFrom (tail_filename tp)
                                     value_source])))))"

text \<open>\<^verbatim>\<open>Array.prototype.some\<close>: stops at the first element the callback accepts.\<close>

fun array_some :: "('a \<Rightarrow> bool \<times> string list) \<Rightarrow> 'a list \<Rightarrow> bool \<times> string list" where
  "array_some f [] = (False, [])"
| "array_some f (x # xs) =
     (case f x of
        (True, w) \<Rightarrow> (True, w)
      | (False, w) \<Rightarrow> (case array_some f xs of (b, w') \<Rightarrow> (b, w @ w')))"

text \<open>
  The component of a call with one argument (lines 92 to 164): the warnings, the
  component if one was determined, and the dependencies pushed.
\<close>

fun call_component ::
  "environment \<Rightarrow> tail_params \<Rightarrow> expression_value \<Rightarrow>
     string list \<times> wrapped_node option \<times> expression_value list" where
  "call_component env tp (FunctionValue src) = ([], Some (Tag ''FunctionalComponent''), [])"
| "call_component env tp (ConstValue v src) =
     ([], (case v of ConstString s \<Rightarrow> Some (Tag s) | _ \<Rightarrow> None), [])"
| "call_component env tp (LazyValue ex src importedFrom) =
     (case (case importedFrom of
              Some (s # ss) \<Rightarrow>
                array_some (isMatched env tp src (findPackageJSON env ''.'' (tail_filename tp)))
                  (s # ss)
            | _ \<Rightarrow> (True, [])) of
        (isSomeMatched, warnings) \<Rightarrow>
          if \<not> isSomeMatched then (warnings, Some (Wrapped ex True src), [])
          else (warnings, Some (Wrapped ex False src), [LazyValue ex src importedFrom]))"

fun tagOp_component ::
  "environment \<Rightarrow> tail_params \<Rightarrow> param \<Rightarrow>
     string list \<times> wrapped_node option \<times> expression_value list" where
  "tagOp_component env tp (Call [v]) = call_component env tp v"
| "tagOp_component env tp (Member m) = ([], Some (Tag m), [])"
| "tagOp_component env tp p = ([], None, [])"

text \<open>
  The constructor of the base class \<^verbatim>\<open>TaggedTemplateProcessor\<close> (package
  processor-utils), called as \<^verbatim>\<open>super([tag, template], ...args)\<close>, pushes onto
  \<^verbatim>\<open>this.dependencies\<close> every value of the template whose kind is not FUNCTION, in
  order, before the styled constructor goes on.
\<close>

fun item_dependencies :: "template_item \<Rightarrow> expression_value list" where
  "item_dependencies (TemplateElement s) = []"
| "item_dependencies (TemplateValue (FunctionValue src)) = []"
| "item_dependencies (TemplateValue v) = [v]"

fun base_dependencies :: "param \<Rightarrow> expression_value list" where
  "base_dependencies (Template items) = concat (map item_dependencies items)"
| "base_dependencies p = []"

text \<open>
  The fields of a processor when its constructor returns: those of the base class,
  the component, the dependencies (those of the base class, then what the styled
  constructor pushed), no interpolation, the counter at 0 and an empty cache.
\<close>

definition new_processor ::
  "tail_params \<Rightarrow> wrapped_node \<Rightarrow> expression_value list \<Rightarrow> styled_processor" where
  "new_processor tp wn deps =
     \<lparr> component = wn,
       className = tail_className tp,
       displayName = tail_displayName tp,
       slug = tail_slug tp,
       tagSourceCode = tail_tagSourceCode tp,
       filename = tail_filename tp,
       options = tail_options tp,
       dependencies = deps,
       interpolations = [],
       variableIdx = 0,
       variablesCache = Map.empty \<rparr>"

text \<open>
  The constructor: the warnings printed, and the processor or the value thrown.
  \<^verbatim>\<open>!component\<close> holds of \<^verbatim>\<open>undefined\<close> and of the empty string.
\<close>

definition StyledProcessor ::
  "environment \<Rightarrow> tail_params \<Rightarrow> param list \<Rightarrow>
     string list \<times> (constructor_error + styled_processor)" where
  "StyledProcessor env tp params =
     (if \<not> isValidParams params [Exactly N_callee, Any, Rest] then ([], Inl SKIP)
      else if \<not> isValidParams params
                 [Exactly N_callee, OneOf [N_call, N_member], OneOf [N_template, N_call]]
      then ([], Inl (Error invalid_usage))
      else
        (case params of
           [tag, tagOp, template] \<Rightarrow>
             if name_of_param template = N_call then ([], Inl SKIP)
             else
               (case tagOp_component env tp tagOp of
                  (warnings, c, deps) \<Rightarrow>
                    (case c of
                       None \<Rightarrow> (warnings, Inl (Error invalid_usage))
                     | Some wn \<Rightarrow>
                         if wn = Tag [] then (warnings, Inl (Error invalid_usage))
                         else
                           (warnings,
                            Inr (new_processor tp wn (base_dependencies template @ deps)))))
         | _ \<Rightarrow> ([], Inl (Error invalid_usage))))"

subsection \<open>The tag expression and the diagnostic rendering\<close>

definition tagExpressionArgument :: "styled_processor \<Rightarrow> expression" where
  "tagExpressionArgument p =
     (case component p of
        Tag s \<Rightarrow>
          if s = ''FunctionalComponent'' then ArrowFunctionExpression [] (BlockStatement [])
          else singleQuotedStringLiteral s
      | Wrapped n f src \<Rightarrow> CallExpression (Identifier n) [])"

definition toString :: "styled_processor \<Rightarrow> string" where
  "toString p =
     (let res = (\<lambda>arg. tagSourceCode p @ ''('' @ arg @ '')'' @ backtick @ ellipsis @ backtick)
      in case component p of
           Tag s \<Rightarrow>
             if s = ''FunctionalComponent'' then res (''() => {'' @ ellipsis @ ''}'')
             else res (apostrophe @ s @ apostrophe)
         | Wrapped n f src \<Rightarrow> res src)"

subsection \<open>The variable id allocator\<close>

text \<open>
  The helpers of other packages the allocator calls: \<^verbatim>\<open>toValidCSSIdentifier\<close>,
  \<^verbatim>\<open>buildSlug\<close> (of a template, the copied context and the index copied with it)
  and \<^verbatim>\<open>slugify\<close>.
\<close>

record slug_helpers =
  toValidCSSIdentifier :: "string \<Rightarrow> string"
  buildSlug :: "string \<Rightarrow> variable_context \<Rightarrow> nat \<Rightarrow> string"
  slugify :: "string \<Rightarrow> string"

text \<open>\<^verbatim>\<open>getIndex\<close>: \<^verbatim>\<open>this.#variableIdx++\<close>.\<close>

definition getIndex :: "styled_processor \<Rightarrow> nat \<times> styled_processor" where
  "getIndex p = (variableIdx p, p\<lparr>variableIdx := variableIdx p + 1\<rparr>)"

text \<open>
  The fields of the context other than \<^verbatim>\<open>index\<close>; building the context reads no
  index.
\<close>

definition getVariableContext ::
  "slug_helpers \<Rightarrow> styled_processor \<Rightarrow> string \<Rightarrow> string \<Rightarrow> string \<Rightarrow> variable_context" where
  "getVariableContext h p src un css =
     \<lparr> componentName = displayName p,
       componentSlug = slug p,
       precedingCss = css,
       processor = ''StyledProcessor'',
       source = src,
       unit = un,
       valueSlug = slugify h (src @ un) \<rparr>"

text \<open>
  \<^verbatim>\<open>getCustomVariableId\<close>. An empty template is falsy, like \<^verbatim>\<open>undefined\<close>. A function
  reads the index as often as it chooses; for a template, the spread
  \<^verbatim>\<open>{ ...context }\<close> copies every property and so calls the getter once.
\<close>

definition getCustomVariableId ::
  "slug_helpers \<Rightarrow> styled_processor \<Rightarrow> string \<Rightarrow> string \<Rightarrow> string \<Rightarrow>
     string option \<times> styled_processor" where
  "getCustomVariableId h p src un css =
     (let context = getVariableContext h p src un css in
      case variableNameSlug (options p) of
        None \<Rightarrow> (None, p)
      | Some (SlugTemplate t) \<Rightarrow>
          if t = [] then (None, p)
          else (case getIndex p of (i, p') \<Rightarrow> (Some (buildSlug h t context i), p'))
      | Some (SlugFunction f) \<Rightarrow>
          (case run_reader (f context) (variableIdx p) of
             (r, idx) \<Rightarrow> (r, p\<lparr>variableIdx := idx\<rparr>)))"

text \<open>\<^verbatim>\<open>getVariableId\<close>: the id and the processor after the call.\<close>

definition getVariableId ::
  "slug_helpers \<Rightarrow> styled_processor \<Rightarrow> string \<Rightarrow> string \<Rightarrow> string \<Rightarrow>
     string \<times> styled_processor" where
  "getVariableId h p src un css =
     (let val = src @ un in
      case variablesCache p val of
        Some cached \<Rightarrow> (cached, p)
      | None \<Rightarrow>
          (case getCustomVariableId h p src un css of
             (Some i, p1) \<Rightarrow>
               if i \<noteq> [] then (toValidCSSIdentifier h i, p1)
               else
                 (case getIndex p1 of
                    (n, p2) \<Rightarrow>
                      (let new = slug p2 @ ''-'' @ Number_toString n in
                       (new, p2\<lparr>variablesCache := (variablesCache p2)(val \<mapsto> new)\<rparr>)))
           | (None, p1) \<Rightarrow>
               (case getIndex p1 of
                  (n, p2) \<Rightarrow>
                    (let new = slug p2 @ ''-'' @ Number_toString n in
                     (new, p2\<lparr>variablesCache := (variablesCache p2)(val \<mapsto> new)\<rparr>)))))"

definition addInterpolation ::
  "slug_helpers \<Rightarrow> styled_processor \<Rightarrow> expression \<Rightarrow> string \<Rightarrow> string \<Rightarrow> string \<Rightarrow>
     string \<times> styled_processor" where
  "addInterpolation h p nd css src un =
     (case getVariableId h p src un css of
        (i, p') \<Rightarrow>
          (i, p'\<lparr>interpolations := interpolations p' @
                   [\<lparr> interpolation_id = i, interpolation_node = nd,
                      interpolation_source = src, interpolation_unit = un \<rparr>]\<rparr>))"

text \<open>
  A template body is scanned left to right; each interpolation is a call of
  \<^verbatim>\<open>addInterpolation\<close> with (node, precedingCss, source, unit). The ids returned, in
  order, and the processor after the last call:
\<close>

fun addInterpolations ::
  "slug_helpers \<Rightarrow> styled_processor \<Rightarrow> (expression \<times> string \<times> string \<times> string) list \<Rightarrow>
     string list \<times> styled_processor" where
  "addInterpolations h p [] = ([], p)"
| "addInterpolations h p ((nd, css, src, un) # rs) =
     (case addInterpolation h p nd css src un of
        (i, p') \<Rightarrow> (case addInterpolations h p' rs of (ids, p'') \<Rightarrow> (i # ids, p'')))"

subsection \<open>The rule extractor\<close>

text \<open>
  The evaluated values are objects that refer to each other: the \<^verbatim>\<open>extends\<close> of one
  object's \<^verbatim>\<open>__wyw_meta\<close> is another evaluated value. The heap lists, for each object
  that has a \<^verbatim>\<open>__wyw_meta\<close> property, its address and that property; every other
  value (a primitive, \<^verbatim>\<open>null\<close>, \<^verbatim>\<open>undefined\<close>, an object without the property) carries
  no metadata.
\<close>

type_synonym address = nat

datatype evaluated = ObjectRef address | NotAnObject

record eval_meta =
  meta_className :: string
  meta_extends :: evaluated

type_synonym heap = "(address \<times> eval_meta) list"

text \<open>
  \<^verbatim>\<open>hasEvalMeta\<close> of the package shared: the value is a non-null object with a
  \<^verbatim>\<open>__wyw_meta\<close> property; the result is that property.
\<close>

definition hasEvalMeta :: "heap \<Rightarrow> evaluated \<Rightarrow> eval_meta option" where
  "hasEvalMeta hp v = (case v of ObjectRef a \<Rightarrow> map_of hp a | NotAnObject \<Rightarrow> None)"

text \<open>
  The loop of \<^verbatim>\<open>extractRules\<close> (lines 278 to 281). It has no bound: \<open>None\<close> is a walk
  that never ends.
\<close>

partial_function (option) selector_loop :: "heap \<Rightarrow> string \<Rightarrow> evaluated \<Rightarrow> string option" where
  "selector_loop hp selector v =
     (case hasEvalMeta hp v of
        None \<Rightarrow> Some selector
      | Some m \<Rightarrow> selector_loop hp (selector @ ''.'' @ meta_className m) (meta_extends m))"

record position =
  line :: nat
  column :: nat

record source_location =
  loc_start :: position
  loc_end :: position

record rule =
  cssText :: string
  rule_className :: string
  rule_displayName :: string
  start :: "position option"

text \<open>
  \<^verbatim>\<open>extractRules\<close>: the rules object, as the list of its entries. A key that the value
  cache does not hold reads as \<^verbatim>\<open>undefined\<close>.
\<close>

definition extractRules ::
  "heap \<Rightarrow> styled_processor \<Rightarrow> (string \<rightharpoonup> evaluated) \<Rightarrow> string \<Rightarrow> source_location option \<Rightarrow>
     (string \<times> rule) list option" where
  "extractRules hp p valueCache css loc =
     (let v = (case component p of
                 Tag s \<Rightarrow> NotAnObject
               | Wrapped n f src \<Rightarrow>
                   if f then NotAnObject
                   else (case valueCache n of Some x \<Rightarrow> x | None \<Rightarrow> NotAnObject))
      in case selector_loop hp (''.'' @ className p) v of
           None \<Rightarrow> None
         | Some selector \<Rightarrow>
             Some [(selector,
                    \<lparr> cssText = css,
                      rule_className = className p,
                      rule_displayName = displayName p,
                      start = map_option loc_start loc \<rparr>)])"

subsection \<open>The properties of the runtime wrapper\<close>

text \<open>
  \<^verbatim>\<open>html.elements\<close> of the package react-html-attributes: two lists of names.
\<close>

record html_elements =
  html :: "string list"
  svg :: "string list"

text \<open>
  \<^verbatim>\<open>new Set([...html.elements.html, html.elements.svg])\<close>: the first list is
  spread, the second is one element of the set, an array.
\<close>

datatype set_element = ElementString string | ElementArray "string list"

definition allTagsSet :: "html_elements \<Rightarrow> set_element set" where
  "allTagsSet e = set (map ElementString (html e) @ [ElementArray (svg e)])"

record props =
  props_name :: string
  props_class :: string
  propsAsIs :: bool
  vars :: "(string \<times> expression list) list option"

text \<open>
  The entry one interpolation writes into \<^verbatim>\<open>vars\<close>. Assigning to a key that is
  already there replaces its value and keeps its place, as \<open>AList.update\<close> does; a new
  key goes last (an id is not an array index, the one kind of key JavaScript would
  enumerate first).
\<close>

definition set_var ::
  "(string \<times> expression list) list \<Rightarrow> interpolation \<Rightarrow> (string \<times> expression list) list" where
  "set_var vs i =
     (let items = [CallExpression (interpolation_node i) []];
          items' = (if interpolation_unit i \<noteq> []
                    then items @ [StringLiteral (interpolation_unit i) None] else items)
      in AList.update (interpolation_id i) items' vs)"

definition getProps :: "html_elements \<Rightarrow> styled_processor \<Rightarrow> props" where
  "getProps e p =
     \<lparr> props_name = displayName p,
       props_class = className p,
       propsAsIs = (case component p of
                      Tag s \<Rightarrow> ElementString s \<notin> allTagsSet e
                    | Wrapped n f src \<Rightarrow> True),
       vars = (if interpolations p \<noteq> [] then Some (foldl set_var [] (interpolations p))
               else None) \<rparr>"

subsection \<open>The interpolation validator\<close>

text \<open>
  \<^verbatim>\<open>throwIfInvalid\<close> throws what \<^verbatim>\<open>ex.buildCodeFrameError\<close> builds from a message; the
  two places that throw are the two constructors of \<open>validation_error\<close>. Its collaborators:
  the predicate \<^verbatim>\<open>isSerializable\<close>, \<^verbatim>\<open>JSON.stringify\<close>, the conversion \<^verbatim>\<open>String\<close>, and
  the text \<^verbatim>\<open>generator(ex.node).code\<close>.
\<close>

datatype validation_error = EvaluationError string | InvalidInterpolationError string

record validator_helpers =
  isSerializable :: "js_value \<Rightarrow> bool"
  JSON_stringify :: "js_value \<Rightarrow> string"
  String_of :: "js_value \<Rightarrow> string"

text \<open>A value in a template literal: a string is itself, any other value is converted.\<close>

definition in_template :: "validator_helpers \<Rightarrow> js_value \<Rightarrow> string" where
  "in_template h v = (case v of JSString s \<Rightarrow> s | _ \<Rightarrow> String_of h v)"

text \<open>The two messages, of the message of the value and of its rendering.\<close>

definition evaluation_message :: "string \<Rightarrow> string" where
  "evaluation_message m =
     ''An error occurred when evaluating the expression: '' @ m @
     ''. Make sure you are not using a browser or Node specific API.''"

definition invalid_interpolation_message :: "string \<Rightarrow> string \<Rightarrow> string" where
  "invalid_interpolation_message stringified ex_code =
     ''The expression evaluated to '' @ apostrophe @ stringified @ apostrophe @
     '', which is probably a mistake. If you want it to be inserted into CSS, explicitly cast or transform the value to a string, e.g. - '' @
     apostrophe @ ''String('' @ ex_code @ '')'' @ apostrophe @ ''.''"

definition throwIfInvalid ::
  "validator_helpers \<Rightarrow> js_value \<Rightarrow> string \<Rightarrow> validation_error + unit" where
  "throwIfInvalid h v ex_code =
     (if typeof v = T_function \<or> typeof v = T_string \<or>
         (typeof v = T_number \<and> Number_isFinite v) \<or> isSerializable h v
      then Inr ()
      else if truthy v \<and> typeof v \<noteq> T_number \<and> truthy (get_property v ''stack'') \<and>
              truthy (get_property v ''message'')
      then Inl (EvaluationError
                 (evaluation_message (in_template h (get_property v ''message''))))
      else
        (let stringified = (if typeof v = T_object then JSON_stringify h v else String_of h v)
         in Inl (InvalidInterpolationError
                  (invalid_interpolation_message stringified ex_code))))"

subsection \<open>Notions the properties are stated with\<close>

text \<open>
  An interpolation to record is (node, precedingCss, source, unit); its (source, unit)
  pair, and the key under which the allocator caches its id.
\<close>

definition request_source_unit ::
  "expression \<times> string \<times> string \<times> string \<Rightarrow> string \<times> string" where
  "request_source_unit r = (case r of (nd, css, src, un) \<Rightarrow> (src, un))"

definition request_key :: "expression \<times> string \<times> string \<times> string \<Rightarrow> string" where
  "request_key r = (case r of (nd, css, src, un) \<Rightarrow> src @ un)"

text \<open>The id the default branch builds from a counter value.\<close>

definition default_id :: "styled_processor \<Rightarrow> nat \<Rightarrow> string" where
  "default_id p n = slug p @ ''-'' @ Number_toString n"

text \<open>
  The invariant of the cache under the default allocator: every cached id was built
  from a counter value already used, and no id is cached under two keys.
\<close>

definition cache_ok :: "styled_processor \<Rightarrow> bool" where
  "cache_ok p =
     ((\<forall>k v. variablesCache p k = Some v \<longrightarrow> (\<exists>n<variableIdx p. v = default_id p n)) \<and>
      (\<forall>k k' v. variablesCache p k = Some v \<and> variablesCache p k' = Some v \<longrightarrow> k = k'))"

text \<open>
  The class names met when following \<^verbatim>\<open>extends\<close> from a value, outermost first, up to
  the first value without metadata.
\<close>

inductive extends_chain :: "heap \<Rightarrow> evaluated \<Rightarrow> string list \<Rightarrow> bool" where
  chain_end: "hasEvalMeta hp v = None \<Longrightarrow> extends_chain hp v []"
| chain_link: "hasEvalMeta hp v = Some m \<Longrightarrow> extends_chain hp (meta_extends m) cs \<Longrightarrow>
     extends_chain hp v (meta_className m # cs)"

definition class_segments :: "string list \<Rightarrow> string" where
  "class_segments cs = concat (map (\<lambda>c. ''.'' @ c) cs)"

text \<open>The \<^verbatim>\<open>extends\<close> references between the objects of a heap.\<close>

definition extends_edges :: "heap \<Rightarrow> (address \<times> address) set" where
  "extends_edges hp = {(a, b). \<exists>m. map_of hp a = Some m \<and> meta_extends m = ObjectRef b}"

subsection \<open>Sample inputs\<close>

text \<open>
  Helpers that behave like the real ones on the inputs used below: a template
  without placeholders is its own slug, and an identifier that is already valid is
  left alone.
\<close>

definition sample_helpers :: slug_helpers where
  "sample_helpers =
     \<lparr> toValidCSSIdentifier = map (\<lambda>c. if c = CHR 0x20 then CHR ''_'' else c),
       buildSlug = (\<lambda>t c i. t),
       slugify = (\<lambda>s. s) \<rparr>"

definition sample_options :: processor_options where
  "sample_options = \<lparr> extensions = [''.js''], variableNameSlug = None \<rparr>"

text \<open>\<^verbatim>\<open>styled.div\<close> with display name Styled1 and class abc123, just constructed.\<close>

definition sample_processor :: styled_processor where
  "sample_processor =
     \<lparr> component = Tag ''div'',
       className = ''abc123'',
       displayName = ''Styled1'',
       slug = ''s1'',
       tagSourceCode = ''styled'',
       filename = ''/app/src/a.js'',
       options = sample_options,
       dependencies = [],
       interpolations = [],
       variableIdx = 0,
       variablesCache = Map.empty \<rparr>"

text \<open>The template \<^verbatim>\<open>width: ${a}px; color: ${b}; height: ${a}px;\<close>.\<close>

definition sample_requests :: "(expression \<times> string \<times> string \<times> string) list" where
  "sample_requests =
     [(Identifier ''a'', ''width: '', ''a'', ''px''),
      (Identifier ''b'', ''px; color: '', ''b'', []),
      (Identifier ''a'', ''; height: '', ''a'', ''px'')]"

text \<open>The template \<^verbatim>\<open>transition-delay: ${a}ms; transition-duration: ${am}s;\<close>.\<close>

definition colliding_requests :: "(expression \<times> string \<times> string \<times> string) list" where
  "colliding_requests =
     [(Identifier ''a'', ''transition-delay: '', ''a'', ''ms''),
      (Identifier ''am'', ''ms; transition-duration: '', ''am'', ''s'')]"

text \<open>
  A styled component A with class a, and B, which is styled(A), with class b. C is
  styled(B), with class c.
\<close>

definition sample_heap :: heap where
  "sample_heap =
     [(1, \<lparr> meta_className = ''a'', meta_extends = NotAnObject \<rparr>),
      (2, \<lparr> meta_className = ''b'', meta_extends = ObjectRef 1 \<rparr>)]"

definition sample_valueCache :: "string \<rightharpoonup> evaluated" where
  "sample_valueCache = [''A'' \<mapsto> ObjectRef 1, ''B'' \<mapsto> ObjectRef 2]"

definition sample_outer :: styled_processor where
  "sample_outer = sample_processor \<lparr> component := Wrapped ''B'' False ''B'', className := ''c'' \<rparr>"

text \<open>An excerpt of the two lists of react-html-attributes.\<close>

definition sample_elements :: html_elements where
  "sample_elements =
     \<lparr> html = [''a'', ''button'', ''div'', ''span'', ''svg''],
       svg = [''circle'', ''g'', ''path'', ''svg''] \<rparr>"

text \<open>\<^verbatim>\<open>styled.circle\<close>.\<close>

definition circle_processor :: styled_processor where
  "circle_processor = sample_processor \<lparr> component := Tag ''circle'' \<rparr>"

text \<open>
  The file /app/src/a.js of a package /app imports Button from the package ui-kit,
  whose package.json declares the mask \<^verbatim>\<open>dist/**/*.js\<close>; the resolver does not find
  ui-kit.
\<close>

definition sample_environment :: environment where
  "sample_environment =
     \<lparr> findPackageJSON =
         (\<lambda>name file.
            if name = ''.'' then Some ''/app/package.json''
            else if name = ''ui-kit'' then Some ''/app/node_modules/ui-kit/package.json''
            else None),
       readComponentsMask =
         (\<lambda>pkg. if pkg = ''/app/node_modules/ui-kit/package.json'' then Some ''dist/**/*.js''
                else None),
       dirname = (\<lambda>f. rev (drop 1 (dropWhile (\<lambda>c. c \<noteq> CHR ''/'') (rev f)))),
       join = (\<lambda>a b. a @ ''/'' @ b),
       resolveSync = (\<lambda>name basedir exts. None),
       minimatch = (\<lambda>file mask. False) \<rparr>"

definition sample_tail :: tail_params where
  "sample_tail =
     \<lparr> tail_className = ''abc123'',
       tail_displayName = ''Styled1'',
       tail_slug = ''s1'',
       tail_tagSourceCode = ''styled'',
       tail_filename = ''/app/src/a.js'',
       tail_options = sample_options \<rparr>"

text \<open>
  \<^verbatim>\<open>styled(Button)\<close> with the template \<^verbatim>\<open>color: ${color}${props => props.size}px;\<close>, and
  \<^verbatim>\<open>styled('FunctionalComponent')\<close> and \<^verbatim>\<open>styled(props => null)\<close> with an empty template.
\<close>

definition imported_params :: "param list" where
  "imported_params =
     [Callee (Identifier ''styled''),
      Call [LazyValue ''Button'' ''Button'' (Some [''ui-kit''])],
      Template
        [TemplateElement ''color: '', TemplateValue (LazyValue ''color'' ''color'' None),
         TemplateValue (FunctionValue ''props => props.size''), TemplateElement ''px;'']]"

definition constant_params :: "param list" where
  "constant_params =
     [Callee (Identifier ''styled''),
      Call [ConstValue (ConstString ''FunctionalComponent'')
              (apostrophe @ ''FunctionalComponent'' @ apostrophe)],
      Template []]"

definition function_params :: "param list" where
  "function_params =
     [Callee (Identifier ''styled''),
      Call [FunctionValue ''props => null''],
      Template []]"

text \<open>
  Module resolution fails while the allow-mask of an import source is checked: the
  package found for the source (or else the file's own package) declares a non-empty
  mask, and \<^verbatim>\<open>resolve.sync\<close> throws.
\<close>

definition mask_checked_unresolved :: "environment \<Rightarrow> tail_params \<Rightarrow> string \<Rightarrow> bool" where
  "mask_checked_unresolved env tp importedFrom =
     (case (case findPackageJSON env importedFrom (tail_filename tp) of
              Some pkg \<Rightarrow> Some pkg
            | None \<Rightarrow> findPackageJSON env ''.'' (tail_filename tp)) of
        None \<Rightarrow> False
      | Some pkg \<Rightarrow>
          pkg \<noteq> [] \<and>
          (case readComponentsMask env pkg of None \<Rightarrow> False | Some m \<Rightarrow> m \<noteq> []) \<and>
          resolveSync env importedFrom (dirname env (tail_filename tp))
            (extensions (tail_options tp)) = None)"

text \<open>
  A serializable predicate that knows plain objects, and renderings that are right
  on the values used below. The error of \<^verbatim>\<open>throw new Error()\<close> has an empty message;
  the last value is an error whose stack is empty.
\<close>

definition sample_validator :: validator_helpers where
  "sample_validator =
     \<lparr> isSerializable = (\<lambda>v. case v of JSObject c ps \<Rightarrow> c = ''Object'' | _ \<Rightarrow> False),
       JSON_stringify = (\<lambda>v. ''{}''),
       String_of =
         (\<lambda>v. case v of
                JSNumber NaN \<Rightarrow> ''NaN''
              | JSNumber Infinity \<Rightarrow> ''Infinity''
              | JSNumber NegInfinity \<Rightarrow> ''-Infinity''
              | _ \<Rightarrow> ''undefined'') \<rparr>"

definition reference_error :: js_value where
  "reference_error =
     JSObject ''ReferenceError''
       [(''message'', JSString ''window is not defined''),
        (''stack'', JSString ''ReferenceError: window is not defined at a.js:1:7'')]"

definition empty_message_error :: js_value where
  "empty_message_error =
     JSObject ''Error'' [(''message'', JSString []), (''stack'', JSString ''Error at a.js:1:7'')]"

definition empty_stack_error :: js_value where
  "empty_stack_error =
     JSObject ''Error'' [(''message'', JSString ''boom''), (''stack'', JSString [])]"

text \<open>What the first test of \<^verbatim>\<open>throwIfInvalid\<close> lets through.\<close>

definition accepted :: "validator_helpers \<Rightarrow> js_value \<Rightarrow> bool" where
  "accepted h v =
     (typeof v = T_function \<or> typeof v = T_string \<or> (\<exists>r. v = JSNumber (Finite r)) \<or>
      isSerializable h v)"

text \<open>
  Processors with a custom id generator: the template \<^verbatim>\<open>v\<close>, which has no
  placeholder; a function that does not read the index; a function that reads it once.
\<close>

definition template_processor :: styled_processor where
  "template_processor =
     sample_processor
       \<lparr> options := \<lparr> extensions = [''.js''], variableNameSlug = Some (SlugTemplate ''v'') \<rparr> \<rparr>"

definition function_processor :: styled_processor where
  "function_processor =
     sample_processor
       \<lparr> options := \<lparr> extensions = [''.js''],
                  variableNameSlug = Some (SlugFunction (\<lambda>c. Return (Some (''x '' @ source c)))) \<rparr> \<rparr>"

definition reading_processor :: styled_processor where
  "reading_processor =
     sample_processor
       \<lparr> options := \<lparr> extensions = [''.js''],
                  variableNameSlug =
                    Some (SlugFunction
                      (\<lambda>c. ReadIndex (\<lambda>i. Return (Some (''v'' @ Number_toString i))))) \<rparr> \<rparr>"

text \<open>The number of counter values a configured generator consumes on one call.\<close>

definition generator_reads ::
  "slug_helpers \<Rightarrow> styled_processor \<Rightarrow> string \<Rightarrow> string \<Rightarrow> string \<Rightarrow> nat" where
  "generator_reads h p src un css =
     (case variableNameSlug (options p) of
        None \<Rightarrow> 0
      | Some (SlugTemplate t) \<Rightarrow> if t = [] then 0 else 1
      | Some (SlugFunction f) \<Rightarrow>
          index_reads (f (getVariableContext h p src un css)) (variableIdx p))"

text \<open>The entry of \<^verbatim>\<open>vars\<close> that an interpolation record stands for.\<close>

definition var_items :: "interpolation \<Rightarrow> expression list" where
  "var_items i =
     CallExpression (interpolation_node i) [] #
     (if interpolation_unit i = [] then [] else [StringLiteral (interpolation_unit i) None])"

text \<open>
  The sample processor after the three interpolations of the sample template were
  recorded.
\<close>

definition recorded_processor :: styled_processor where
  "recorded_processor = snd (addInterpolations sample_helpers sample_processor sample_requests)"

section \<open>Properties\<close>

subsection \<open>The decimal rendering is injective\<close>

lemma digit_inj:
  assumes "a < 10" "b < 10" "''0123456789'' ! a = ''0123456789'' ! b"
  shows "a = b"
proof -
  have d: "distinct ''0123456789''" by simp
  have "a < length ''0123456789''" "b < length ''0123456789''" using assms by simp_all
  with d assms(3) show ?thesis by (simp add: nth_eq_iff_index_eq)
qed

lemma Number_toString_nonempty: "Number_toString n \<noteq> []"
  by (subst Number_toString.simps) simp

lemma Number_toString_small: "n < 10 \<Longrightarrow> Number_toString n = [''0123456789'' ! n]"
  by (subst Number_toString.simps) simp

lemma Number_toString_large:
  "\<not> n < 10 \<Longrightarrow> Number_toString n = Number_toString (n div 10) @ [''0123456789'' ! (n mod 10)]"
  by (subst Number_toString.simps) simp

lemma Number_toString_inj: "Number_toString n = Number_toString m \<Longrightarrow> n = m"
proof (induction n arbitrary: m rule: Number_toString.induct)
  case (1 n)
  show ?case
  proof (cases "n < 10")
    case True
    note n = Number_toString_small [OF True]
    show ?thesis
    proof (cases "m < 10")
      case mt: True
      from n "1.prems" Number_toString_small [OF mt]
      have "''0123456789'' ! n = ''0123456789'' ! m" by simp
      with True mt show ?thesis by (rule digit_inj)
    next
      case False
      from n "1.prems" Number_toString_large [OF False]
      have "Number_toString (m div 10) = []" by simp
      then show ?thesis using Number_toString_nonempty by blast
    qed
  next
    case False
    note n = Number_toString_large [OF False]
    show ?thesis
    proof (cases "m < 10")
      case True
      from n "1.prems" Number_toString_small [OF True]
      have "Number_toString (n div 10) = []" by simp
      then show ?thesis using Number_toString_nonempty by blast
    next
      case mf: False
      from n "1.prems" Number_toString_large [OF mf]
      have e: "Number_toString (n div 10) = Number_toString (m div 10)"
        and d: "''0123456789'' ! (n mod 10) = ''0123456789'' ! (m mod 10)" by simp_all
      from "1.IH" [OF False e] have q: "n div 10 = m div 10" .
      have "n mod 10 = m mod 10" by (rule digit_inj [OF _ _ d]) simp_all
      with q show ?thesis by (metis div_mult_mod_eq)
    qed
  qed
qed

lemma default_id_inj: "default_id p n = default_id p m \<Longrightarrow> n = m"
  by (simp add: default_id_def Number_toString_inj)

subsection \<open>The default allocator\<close>

lemma getVariableId_default:
  assumes "variableNameSlug (options p) = None"
  shows "getVariableId h p src un css =
     (case variablesCache p (src @ un) of
        Some cached \<Rightarrow> (cached, p)
      | None \<Rightarrow>
          (default_id p (variableIdx p),
           p\<lparr>variableIdx := variableIdx p + 1,
             variablesCache := (variablesCache p)(src @ un \<mapsto> default_id p (variableIdx p))\<rparr>))"
  using assms
  by (simp add: getVariableId_def getCustomVariableId_def getIndex_def default_id_def Let_def
      split: option.split)

lemma addInterpolation_default:
  assumes "variableNameSlug (options p) = None"
    and "addInterpolation h p nd css src un = (i, p')"
  shows "variablesCache p' (src @ un) = Some i"
    and "variablesCache p k = Some v \<Longrightarrow> variablesCache p' k = Some v"
    and "options p' = options p"
    and "slug p' = slug p"
  using assms
  by (auto simp: addInterpolation_def getVariableId_default split: option.splits)

lemma addInterpolation_cache_ok:
  assumes "variableNameSlug (options p) = None"
    and "addInterpolation h p nd css src un = (i, p')"
    and "cache_ok p"
  shows "cache_ok p'"
proof (cases "variablesCache p (src @ un)")
  case None
  let ?new = "default_id p (variableIdx p)"
  from assms(1,2) None have p': "variablesCache p' = (variablesCache p)(src @ un \<mapsto> ?new)"
    "variableIdx p' = Suc (variableIdx p)" "slug p' = slug p"
    by (auto simp: addInterpolation_def getVariableId_default)
  have fresh: "variablesCache p k \<noteq> Some ?new" for k
  proof
    assume "variablesCache p k = Some ?new"
    with assms(3) obtain n where "n < variableIdx p" "?new = default_id p n"
      unfolding cache_ok_def by blast
    then show False using default_id_inj by blast
  qed
  from assms(3) have inj:
    "\<And>k k' v. variablesCache p k = Some v \<Longrightarrow> variablesCache p k' = Some v \<Longrightarrow> k = k'"
    unfolding cache_ok_def by blast
  have same: "default_id p' n = default_id p n" for n
    by (simp add: default_id_def p'(3))
  show ?thesis
    unfolding cache_ok_def
  proof (intro conjI allI impI)
    fix k v assume kv: "variablesCache p' k = Some v"
    have "v = ?new \<or> variablesCache p k = Some v"
    proof (cases "k = src @ un")
      case True
      with kv show ?thesis by (simp add: p'(1))
    next
      case False
      with kv show ?thesis by (simp add: p'(1))
    qed
    then consider "v = ?new" | "variablesCache p k = Some v" by blast
    then show "\<exists>n<variableIdx p'. v = default_id p' n"
    proof cases
      case 1
      then show ?thesis by (auto simp: p'(2) same)
    next
      case 2
      with assms(3) obtain n where "n < variableIdx p" "v = default_id p n"
        unfolding cache_ok_def by blast
      then show ?thesis by (auto simp: p'(2) same intro: less_SucI)
    qed
  next
    fix k k' v
    assume "variablesCache p' k = Some v \<and> variablesCache p' k' = Some v"
    then have a: "((variablesCache p)(src @ un \<mapsto> ?new)) k = Some v"
      and b: "((variablesCache p)(src @ un \<mapsto> ?new)) k' = Some v"
      by (simp_all add: p'(1))
    show "k = k'"
    proof (cases "k = src @ un")
      case True
      with a have "v = ?new" by simp
      with b fresh [of k'] have "k' = src @ un" by (cases "k' = src @ un") simp_all
      with True show ?thesis by simp
    next
      case False
      with a have ka: "variablesCache p k = Some v" by simp
      with fresh [of k] have "v \<noteq> ?new" by auto
      with b have "variablesCache p k' = Some v" by (cases "k' = src @ un") simp_all
      with ka show ?thesis by (rule inj)
    qed
  qed
next
  case (Some a)
  with assms(1,2) have "variablesCache p' = variablesCache p" "variableIdx p' = variableIdx p"
    "slug p' = slug p"
    by (auto simp: addInterpolation_def getVariableId_default)
  with assms(3) show ?thesis by (simp add: cache_ok_def default_id_def)
qed

text \<open>
  After a run of the default allocator, the cache holds, under the key of each
  request, the id that request was given.
\<close>

lemma addInterpolations_default:
  assumes "variableNameSlug (options p) = None"
    and "addInterpolations h p reqs = (ids, p')"
  shows "length ids = length reqs \<and>
         (\<forall>i<length reqs. variablesCache p' (request_key (reqs ! i)) = Some (ids ! i)) \<and>
         (\<forall>k v. variablesCache p k = Some v \<longrightarrow> variablesCache p' k = Some v) \<and>
         (cache_ok p \<longrightarrow> cache_ok p') \<and> slug p' = slug p"
  using assms
proof (induction reqs arbitrary: p ids p')
  case Nil
  then show ?case by simp
next
  case (Cons r rs)
  obtain nd css src un where r: "r = (nd, css, src, un)" by (cases r) auto
  obtain i p1 where a: "addInterpolation h p nd css src un = (i, p1)"
    by (cases "addInterpolation h p nd css src un")
  obtain ids' p2 where b: "addInterpolations h p1 rs = (ids', p2)"
    by (cases "addInterpolations h p1 rs")
  from Cons.prems(2) r a b have ids: "ids = i # ids'" and p': "p' = p2" by simp_all
  note s = addInterpolation_default [OF Cons.prems(1) a]
  from s(3) Cons.prems(1) have n1: "variableNameSlug (options p1) = None" by simp
  note ih = Cons.IH [OF n1 b]
  have ok: "cache_ok p \<Longrightarrow> cache_ok p1"
    by (rule addInterpolation_cache_ok [OF Cons.prems(1) a])
  have "variablesCache p2 (request_key ((r # rs) ! j)) = Some ((i # ids') ! j)"
    if "j < length (r # rs)" for j
  proof (cases j)
    case 0
    from s(1) ih have "variablesCache p2 (src @ un) = Some i" by blast
    with 0 r show ?thesis by (simp add: request_key_def)
  next
    case (Suc j')
    with that ih show ?thesis by simp
  qed
  moreover have "variablesCache p k = Some v \<longrightarrow> variablesCache p2 k = Some v" for k v
    using s(2) ih by blast
  ultimately show ?case using ih ok s(4) by (simp add: ids p')
qed

lemma request_key_source_unit:
  "request_source_unit r = request_source_unit r' \<Longrightarrow> request_key r = request_key r'"
  by (cases r; cases r') (simp add: request_key_def request_source_unit_def)

lemma sample_run:
  "fst (addInterpolations sample_helpers sample_processor sample_requests) =
     [''s1-0'', ''s1-1'', ''s1-0'']"
  by (simp add: sample_requests_def sample_processor_def sample_options_def
      addInterpolation_def getVariableId_def getCustomVariableId_def getIndex_def Let_def
      Number_toString_small)

lemma colliding_run:
  "fst (addInterpolations sample_helpers sample_processor colliding_requests) =
     [''s1-0'', ''s1-0'']"
  by (simp add: colliding_requests_def sample_processor_def sample_options_def
      addInterpolation_def getVariableId_def getCustomVariableId_def getIndex_def Let_def
      Number_toString_small)

subsection \<open>Claim C5: a pair requested again gets the cached id\<close>

text \<open>
  C5. On one processor with no custom id generator, whatever was allocated before and
  in between, two requests with the same (source, unit) pair are given the same id:
  the first one stores it and every later one reads it back from the cache.
\<close>

theorem same_pair_same_id:
  assumes "variableNameSlug (options p) = None"
    and "i < length reqs" and "j < length reqs"
    and "request_source_unit (reqs ! i) = request_source_unit (reqs ! j)"
  shows "fst (addInterpolations h p reqs) ! i = fst (addInterpolations h p reqs) ! j"
proof -
  obtain ids p' where run: "addInterpolations h p reqs = (ids, p')"
    by (cases "addInterpolations h p reqs")
  from addInterpolations_default [OF assms(1) run]
  have c: "\<And>k. k < length reqs \<Longrightarrow> variablesCache p' (request_key (reqs ! k)) = Some (ids ! k)"
    by blast
  from assms(4) have "request_key (reqs ! i) = request_key (reqs ! j)"
    by (rule request_key_source_unit)
  with c [OF assms(2)] c [OF assms(3)] have "ids ! i = ids ! j" by simp
  with run show ?thesis by simp
qed

text \<open>The first and the third interpolation of the sample template are both \<^verbatim>\<open>${a}px\<close>.\<close>

theorem same_pair_same_id_witness:
  "variableNameSlug (options sample_processor) = None \<and>
   request_source_unit (sample_requests ! 0) = request_source_unit (sample_requests ! 2) \<and>
   fst (addInterpolations sample_helpers sample_processor sample_requests) ! 0 =
   fst (addInterpolations sample_helpers sample_processor sample_requests) ! 2"
proof -
  have a: "variableNameSlug (options sample_processor) = None"
    by (simp add: sample_processor_def sample_options_def)
  have b: "request_source_unit (sample_requests ! 0) = request_source_unit (sample_requests ! 2)"
    by (simp add: sample_requests_def request_source_unit_def)
  have c: "0 < length sample_requests" "2 < length sample_requests"
    by (simp_all add: sample_requests_def)
  from same_pair_same_id [OF a c b] a b show ?thesis by simp
qed

subsection \<open>Claim C1: distinct ids\<close>

text \<open>
  What the default allocator does guarantee. The cache key is the concatenation
  source + unit, with nothing between the two. On a processor with no custom id
  generator and an empty cache (a new one), two requests whose keys differ are given
  different ids, built from different counter values; two requests whose keys are
  equal are given the same id, whatever their pairs.
\<close>

lemma distinct_keys_distinct_ids:
  assumes "variableNameSlug (options p) = None"
    and "variablesCache p = Map.empty"
    and "i < length reqs" and "j < length reqs"
    and "request_key (reqs ! i) \<noteq> request_key (reqs ! j)"
  shows "fst (addInterpolations h p reqs) ! i \<noteq> fst (addInterpolations h p reqs) ! j \<and>
         (\<exists>n m. n \<noteq> m \<and>
            fst (addInterpolations h p reqs) ! i = default_id p n \<and>
            fst (addInterpolations h p reqs) ! j = default_id p m)"
proof -
  obtain ids p' where run: "addInterpolations h p reqs = (ids, p')"
    by (cases "addInterpolations h p reqs")
  from assms(2) have "cache_ok p" by (simp add: cache_ok_def)
  with addInterpolations_default [OF assms(1) run]
  have c: "\<And>k. k < length reqs \<Longrightarrow> variablesCache p' (request_key (reqs ! k)) = Some (ids ! k)"
    and ok: "cache_ok p'" and sl: "slug p' = slug p"
    by blast+
  note ci = c [OF assms(3)] and cj = c [OF assms(4)]
  have ne: "ids ! i \<noteq> ids ! j"
  proof
    assume "ids ! i = ids ! j"
    with ci cj ok have "request_key (reqs ! i) = request_key (reqs ! j)"
      unfolding cache_ok_def by metis
    with assms(5) show False by simp
  qed
  from ok ci obtain n where n: "ids ! i = default_id p' n" unfolding cache_ok_def by blast
  from ok cj obtain m where m: "ids ! j = default_id p' m" unfolding cache_ok_def by blast
  have same: "default_id p' k = default_id p k" for k by (simp add: default_id_def sl)
  from ne n m have "n \<noteq> m" by auto
  with ne n m same run show ?thesis by auto
qed

lemma same_key_same_id:
  assumes "variableNameSlug (options p) = None"
    and "i < length reqs" and "j < length reqs"
    and "request_key (reqs ! i) = request_key (reqs ! j)"
  shows "fst (addInterpolations h p reqs) ! i = fst (addInterpolations h p reqs) ! j"
proof -
  obtain ids p' where run: "addInterpolations h p reqs = (ids, p')"
    by (cases "addInterpolations h p reqs")
  from addInterpolations_default [OF assms(1) run]
  have c: "\<And>k. k < length reqs \<Longrightarrow> variablesCache p' (request_key (reqs ! k)) = Some (ids ! k)"
    by blast
  from c [OF assms(2)] c [OF assms(3)] assms(4) have "ids ! i = ids ! j" by simp
  with run show ?thesis by simp
qed

lemma colliding_vars:
  "vars (getProps sample_elements
     (snd (addInterpolations sample_helpers sample_processor colliding_requests))) =
     Some [(''s1-0'', [CallExpression (Identifier ''am'') [], StringLiteral ''s'' None])]"
  by (simp add: colliding_requests_def sample_processor_def sample_options_def
      addInterpolation_def getVariableId_def getCustomVariableId_def getIndex_def Let_def
      Number_toString_small getProps_def set_var_def)

text \<open>
  C1 says that two distinct (source, unit) pairs requested from the default allocator
  of one processor are given distinct ids. The code evaluated at the template
  \<^verbatim>\<open>transition-delay: ${a}ms; transition-duration: ${am}s;\<close> on a new processor: the
  pairs (a, ms) and (am, s) are distinct, both have the key ams, the second request
  is given the id of the first, and the one entry of \<^verbatim>\<open>vars\<close> under that id holds the
  second interpolation only.
\<close>

theorem distinct_pairs_same_id:
  "variableNameSlug (options sample_processor) = None \<and>
   variablesCache sample_processor = Map.empty \<and>
   request_source_unit (colliding_requests ! 0) \<noteq> request_source_unit (colliding_requests ! 1) \<and>
   fst (addInterpolations sample_helpers sample_processor colliding_requests) ! 0 =
   fst (addInterpolations sample_helpers sample_processor colliding_requests) ! 1 \<and>
   vars (getProps sample_elements
     (snd (addInterpolations sample_helpers sample_processor colliding_requests))) =
     Some [(''s1-0'', [CallExpression (Identifier ''am'') [], StringLiteral ''s'' None])]"
  by (simp add: colliding_run colliding_vars)
     (simp add: colliding_requests_def request_source_unit_def sample_processor_def
        sample_options_def)

subsection \<open>The selector loop\<close>

lemma selector_loop_chain:
  "extends_chain hp v cs \<Longrightarrow> selector_loop hp sel v = Some (sel @ class_segments cs)"
proof (induction arbitrary: sel rule: extends_chain.induct)
  case (chain_end hp v)
  then show ?case by (subst selector_loop.simps) (simp add: class_segments_def)
next
  case (chain_link hp v m cs)
  from chain_link.IH [of "sel @ ''.'' @ meta_className m"] chain_link.hyps(1)
  show ?case by (subst selector_loop.simps) (simp add: class_segments_def)
qed

lemma selector_loop_stops:
  "hasEvalMeta hp v = None \<Longrightarrow> selector_loop hp sel v = Some sel"
  by (subst selector_loop.simps) simp

lemma finite_extends_edges: "finite (extends_edges hp)"
proof -
  let ?f = "\<lambda>(a, m). (a, case meta_extends m of ObjectRef b \<Rightarrow> b | NotAnObject \<Rightarrow> 0)"
  have "extends_edges hp \<subseteq> ?f ` set hp"
  proof
    fix e assume "e \<in> extends_edges hp"
    then obtain a b m where e: "e = (a, b)" and m: "map_of hp a = Some m"
      and x: "meta_extends m = ObjectRef b"
      by (auto simp: extends_edges_def)
    from m have "(a, m) \<in> set hp" by (rule map_of_SomeD)
    moreover have "e = ?f (a, m)" by (simp add: e x)
    ultimately show "e \<in> ?f ` set hp" by (rule rev_image_eqI)
  qed
  then show ?thesis by (rule finite_subset) simp
qed

text \<open>
  On a heap without a cycle of \<^verbatim>\<open>extends\<close> references the loop returns: induction
  along the references, which are well-founded because the heap is finite.
\<close>

lemma selector_loop_terminates:
  assumes "acyclic (extends_edges hp)"
  shows "\<exists>s. selector_loop hp sel v = Some s"
proof (cases v)
  case NotAnObject
  then show ?thesis by (simp add: selector_loop_stops hasEvalMeta_def)
next
  case (ObjectRef a)
  have wf: "wf ((extends_edges hp)\<inverse>)"
    using finite_extends_edges assms by (rule finite_acyclic_wf_converse)
  have "\<forall>sel. \<exists>s. selector_loop hp sel (ObjectRef a) = Some s"
    using wf
  proof (induction a rule: wf_induct_rule)
    case (less a)
    show ?case
    proof
      fix sel
      show "\<exists>s. selector_loop hp sel (ObjectRef a) = Some s"
      proof (cases "map_of hp a")
        case None
        then show ?thesis by (simp add: selector_loop_stops hasEvalMeta_def)
      next
        case (Some m)
        show ?thesis
        proof (cases "meta_extends m")
          case NotAnObject
          have "selector_loop hp (sel @ ''.'' @ meta_className m) NotAnObject
                  = Some (sel @ ''.'' @ meta_className m)"
            by (simp add: selector_loop_stops hasEvalMeta_def)
          with Some NotAnObject show ?thesis
            by (subst selector_loop.simps) (simp add: hasEvalMeta_def)
        next
          case (ObjectRef b)
          with Some have "(b, a) \<in> (extends_edges hp)\<inverse>" by (auto simp: extends_edges_def)
          from less.IH [OF this] obtain s where
            "selector_loop hp (sel @ ''.'' @ meta_className m) (ObjectRef b) = Some s" by blast
          with Some ObjectRef show ?thesis
            by (subst selector_loop.simps) (simp add: hasEvalMeta_def)
        qed
      qed
    qed
  qed
  with ObjectRef show ?thesis by simp
qed

text \<open>
  Without the hypothesis the loop need not return: on an object whose \<^verbatim>\<open>extends\<close> is
  the object itself it runs forever.
\<close>

lemma self_reference_never_returns:
  assumes "map_of hp a = Some m" "meta_extends m = ObjectRef a"
  shows "selector_loop hp sel (ObjectRef a) = None"
proof -
  have r: "\<not> (h0 = hp \<and> v0 = ObjectRef a)" if major: "selector_loop h0 sel0 v0 = Some s0"
    for h0 sel0 v0 s0
  proof (rule selector_loop.raw_induct
      [where P = "\<lambda>h s v r. \<not> (h = hp \<and> v = ObjectRef a)", OF _ major])
    fix loop h s v r
    assume IH: "\<And>h s v r. loop h s v = Some r \<Longrightarrow> \<not> (h = hp \<and> v = ObjectRef a)"
      and step: "(case hasEvalMeta h v of None \<Rightarrow> Some s
                  | Some m \<Rightarrow> loop h (s @ ''.'' @ meta_className m) (meta_extends m)) = Some r"
    show "\<not> (h = hp \<and> v = ObjectRef a)"
    proof
      assume e: "h = hp \<and> v = ObjectRef a"
      then have "hasEvalMeta h v = Some m" using assms(1) by (simp add: hasEvalMeta_def)
      with step have "loop h (s @ ''.'' @ meta_className m) (meta_extends m) = Some r"
        by simp
      then have "\<not> (h = hp \<and> meta_extends m = ObjectRef a)" by (rule IH)
      with e assms(2) show False by simp
    qed
  qed
  show ?thesis
  proof (cases "selector_loop hp sel (ObjectRef a)")
    case None
    then show ?thesis .
  next
    case (Some s)
    from r [OF Some] show ?thesis by simp
  qed
qed

lemma sample_edges: "extends_edges sample_heap = {(2, 1)}"
  by (auto simp: extends_edges_def sample_heap_def split: if_splits)

lemma sample_acyclic: "acyclic (extends_edges sample_heap)"
  by (simp add: sample_edges) (simp add: acyclic_def)

lemma sample_chain: "extends_chain sample_heap (ObjectRef 2) [''b'', ''a'']"
proof -
  have e: "extends_chain sample_heap NotAnObject []"
    by (rule chain_end) (simp add: hasEvalMeta_def)
  have m1: "hasEvalMeta sample_heap (ObjectRef 1) =
      Some \<lparr> meta_className = ''a'', meta_extends = NotAnObject \<rparr>"
    by (simp add: hasEvalMeta_def sample_heap_def)
  have m2: "hasEvalMeta sample_heap (ObjectRef 2) =
      Some \<lparr> meta_className = ''b'', meta_extends = ObjectRef 1 \<rparr>"
    by (simp add: hasEvalMeta_def sample_heap_def)
  from chain_link [OF m1] e have "extends_chain sample_heap (ObjectRef 1) [''a'']" by simp
  with chain_link [OF m2] show ?thesis by simp
qed

subsection \<open>Claim C2: the selector of a component that extends another\<close>

text \<open>
  C2. For a processor whose component is a reference that is not foreign,
  \<^verbatim>\<open>extractRules\<close> starts from "." + className, reads the referenced identifier in the
  value cache and, as long as the value followed carries metadata, appends "." + its
  className and goes on with its \<^verbatim>\<open>extends\<close>: when the class names along the chain are
  \<open>cs\<close>, outermost first, the selector of the one rule is "." + className followed by
  "." + c for each c of \<open>cs\<close> in that order. (The instance after it is the chain of
  three: A with class a, styled(A) with class b, and the outer component with class c,
  whose selector is .c.b.a.)
\<close>

theorem extractRules_selector:
  assumes "component p = Wrapped n False src"
    and "extends_chain hp (case valueCache n of Some x \<Rightarrow> x | None \<Rightarrow> NotAnObject) cs"
  shows "extractRules hp p valueCache css loc =
     Some [(''.'' @ className p @ class_segments cs,
            \<lparr> cssText = css, rule_className = className p,
              rule_displayName = displayName p, start = map_option loc_start loc \<rparr>)]"
  using selector_loop_chain [OF assms(2), of "''.'' @ className p"] assms(1)
  by (simp add: extractRules_def)

theorem extractRules_selector_witness:
  "component sample_outer = Wrapped ''B'' False ''B'' \<and>
   extends_chain sample_heap (ObjectRef 2) [''b'', ''a''] \<and>
   extractRules sample_heap sample_outer sample_valueCache ''color: red;'' None =
     Some [(''.c.b.a'',
            \<lparr> cssText = ''color: red;'', rule_className = ''c'',
              rule_displayName = ''Styled1'', start = None \<rparr>)]"
proof -
  have a: "component sample_outer = Wrapped ''B'' False ''B''"
    by (simp add: sample_outer_def)
  have b: "extends_chain sample_heap
      (case sample_valueCache ''B'' of Some x \<Rightarrow> x | None \<Rightarrow> NotAnObject) [''b'', ''a'']"
    using sample_chain by (simp add: sample_valueCache_def)
  from extractRules_selector [of sample_outer "''B''" "''B''" sample_heap sample_valueCache
      "[''b'', ''a'']" "''color: red;''" None, OF a b] a sample_chain
  show ?thesis
    by (simp add: class_segments_def sample_outer_def sample_processor_def)
qed

subsection \<open>Claim C9: the selector loop ends on acyclic metadata\<close>

text \<open>
  C9. When the \<^verbatim>\<open>extends\<close> references of the evaluated values have no cycle, the walk
  of \<^verbatim>\<open>extractRules\<close> ends, from whatever value and selector it starts, and
  \<^verbatim>\<open>extractRules\<close> returns its rules; and the walk stops, with the selector it has,
  at a value that carries no metadata.
\<close>

theorem extractRules_terminates:
  assumes "acyclic (extends_edges hp)"
  shows "(\<exists>rules. extractRules hp p valueCache css loc = Some rules) \<and>
         (\<exists>s. selector_loop hp sel v = Some s) \<and>
         (hasEvalMeta hp v = None \<longrightarrow> selector_loop hp sel v = Some sel)"
proof -
  let ?v = "case component p of
              Tag s \<Rightarrow> NotAnObject
            | Wrapped n f src \<Rightarrow>
                if f then NotAnObject
                else (case valueCache n of Some x \<Rightarrow> x | None \<Rightarrow> NotAnObject)"
  from selector_loop_terminates [OF assms] obtain s where
    "selector_loop hp (''.'' @ className p) ?v = Some s" by blast
  then have "\<exists>rules. extractRules hp p valueCache css loc = Some rules"
    by (simp add: extractRules_def)
  with selector_loop_terminates [OF assms] selector_loop_stops show ?thesis by blast
qed

theorem extractRules_terminates_witness:
  "acyclic (extends_edges sample_heap) \<and>
   (\<exists>rules. extractRules sample_heap sample_outer sample_valueCache ''color: red;'' None =
      Some rules) \<and>
   (\<exists>s. selector_loop sample_heap ''.c'' (ObjectRef 2) = Some s)"
  using extractRules_terminates [OF sample_acyclic, of sample_outer sample_valueCache
      "''color: red;''" None "''.c''" "ObjectRef 2"] sample_acyclic
  by simp

subsection \<open>Claim C3: propsAsIs\<close>

text \<open>
  What the code computes: a string is in \<^verbatim>\<open>allTagsSet\<close> exactly when it is in the list
  \<^verbatim>\<open>html.elements.html\<close>; the list \<^verbatim>\<open>html.elements.svg\<close> is a single element of the
  set, which no string equals.
\<close>

lemma allTagsSet_has: "ElementString s \<in> allTagsSet e \<longleftrightarrow> s \<in> set (html e)"
  by (auto simp: allTagsSet_def)

lemma propsAsIs_false_iff:
  "propsAsIs (getProps e p) = False \<longleftrightarrow> (\<exists>s. component p = Tag s \<and> s \<in> set (html e))"
  by (cases "component p") (simp_all add: getProps_def allTagsSet_has)

text \<open>
  C3 says that \<^verbatim>\<open>propsAsIs\<close> is false for an intrinsic tag among the known HTML and SVG
  element names. The code evaluated at \<^verbatim>\<open>styled.circle\<close>: circle is a known SVG element
  name, and \<^verbatim>\<open>propsAsIs\<close> is true.
\<close>

theorem svg_tag_propsAsIs:
  "''circle'' \<in> set (svg sample_elements) \<and>
   component circle_processor = Tag ''circle'' \<and>
   propsAsIs (getProps sample_elements circle_processor) = True"
  by (simp add: getProps_def allTagsSet_has circle_processor_def sample_elements_def)

subsection \<open>Claim C4: an import that cannot be resolved\<close>

lemma array_some_all_unmatched:
  assumes "\<forall>x \<in> set xs. f x = (False, [w x])"
  shows "array_some f xs = (False, map w xs)"
  using assms by (induction xs) simp_all

lemma isMatched_unresolved:
  assumes "mask_checked_unresolved env tp s"
  shows "isMatched env tp src (findPackageJSON env ''.'' (tail_filename tp)) s =
     (False, [unresolved_warning s (tail_filename tp) src])"
proof -
  let ?pkg = "case findPackageJSON env s (tail_filename tp) of
                Some pkg \<Rightarrow> Some pkg
              | None \<Rightarrow> findPackageJSON env ''.'' (tail_filename tp)"
  from assms obtain pkg m where pkg: "?pkg = Some pkg" "pkg \<noteq> []"
    and m: "readComponentsMask env pkg = Some m" "m \<noteq> []"
    and r: "resolveSync env s (dirname env (tail_filename tp)) (extensions (tail_options tp)) = None"
    unfolding mask_checked_unresolved_def by (auto split: option.splits)
  then show ?thesis
    unfolding isMatched_def by (simp add: Let_def)
qed

lemma sample_unresolved: "mask_checked_unresolved sample_environment sample_tail ''ui-kit''"
  by (simp add: mask_checked_unresolved_def sample_environment_def)

text \<open>
  For comparison, a reference that is treated as styled-aware (here one with no
  import source): the referenced value is pushed after the dependencies of the base
  class.
\<close>

lemma local_reference_is_dependency:
  "StyledProcessor env tp [Callee c, Call [LazyValue ex src None], Template t] =
     ([], Inr (new_processor tp (Wrapped ex False src)
                 (base_dependencies (Template t) @ [LazyValue ex src None])))"
  by (simp add: StyledProcessor_def)

text \<open>
  C4, as the code has it. When module resolution fails while the allow-mask of an
  import source is checked, nothing is thrown: the callback prints one warning and
  answers that the source does not match. When that happens for every import source
  of the identifier, the constructor returns a processor whose component is a foreign
  reference (\<^verbatim>\<open>nonLinaria: true\<close>), having printed one warning for each source, and
  the styled constructor pushes nothing: the dependencies are those the base class
  took from the template, and the referenced value is not added to them.
\<close>

theorem unresolved_import_is_foreign:
  assumes "srcs \<noteq> []"
    and "\<forall>s \<in> set srcs. mask_checked_unresolved env tp s"
  shows "(\<forall>s \<in> set srcs.
            isMatched env tp src (findPackageJSON env ''.'' (tail_filename tp)) s =
              (False, [unresolved_warning s (tail_filename tp) src])) \<and>
         StyledProcessor env tp [Callee c, Call [LazyValue ex src (Some srcs)], Template t] =
           (map (\<lambda>s. unresolved_warning s (tail_filename tp) src) srcs,
            Inr (new_processor tp (Wrapped ex True src) (base_dependencies (Template t)))) \<and>
         dependencies (new_processor tp (Wrapped ex True src) (base_dependencies (Template t))) =
           concat (map item_dependencies t)"
proof -
  from assms(2) have m: "\<forall>s \<in> set srcs.
      isMatched env tp src (findPackageJSON env ''.'' (tail_filename tp)) s =
        (False, [unresolved_warning s (tail_filename tp) src])"
    by (simp add: isMatched_unresolved)
  then have "array_some (isMatched env tp src (findPackageJSON env ''.'' (tail_filename tp))) srcs =
      (False, map (\<lambda>s. unresolved_warning s (tail_filename tp) src) srcs)"
    by (rule array_some_all_unmatched)
  with assms(1) have "StyledProcessor env tp
      [Callee c, Call [LazyValue ex src (Some srcs)], Template t] =
      (map (\<lambda>s. unresolved_warning s (tail_filename tp) src) srcs,
       Inr (new_processor tp (Wrapped ex True src) (base_dependencies (Template t))))"
    by (cases srcs) (simp_all add: StyledProcessor_def)
  with m show ?thesis by (simp add: new_processor_def)
qed

theorem unresolved_import_is_foreign_witness:
  "mask_checked_unresolved sample_environment sample_tail ''ui-kit'' \<and>
   StyledProcessor sample_environment sample_tail imported_params =
     ([unresolved_warning ''ui-kit'' ''/app/src/a.js'' ''Button''],
      Inr (new_processor sample_tail (Wrapped ''Button'' True ''Button'')
             [LazyValue ''color'' ''color'' None]))"
proof -
  note u = unresolved_import_is_foreign [of "[''ui-kit'']" sample_environment sample_tail
      "''Button''" "Identifier ''styled''" "''Button''"
      "[TemplateElement ''color: '', TemplateValue (LazyValue ''color'' ''color'' None),
        TemplateValue (FunctionValue ''props => props.size''), TemplateElement ''px;'']"]
  have "\<forall>s \<in> set [''ui-kit'']. mask_checked_unresolved sample_environment sample_tail s"
    using sample_unresolved by simp
  with u have "StyledProcessor sample_environment sample_tail imported_params =
      (map (\<lambda>s. unresolved_warning s (tail_filename sample_tail) ''Button'') [''ui-kit''],
       Inr (new_processor sample_tail (Wrapped ''Button'' True ''Button'')
              (base_dependencies
                 (Template [TemplateElement ''color: '',
                    TemplateValue (LazyValue ''color'' ''color'' None),
                    TemplateValue (FunctionValue ''props => props.size''),
                    TemplateElement ''px;'']))))"
    unfolding imported_params_def by blast
  then have "StyledProcessor sample_environment sample_tail imported_params =
     ([unresolved_warning ''ui-kit'' ''/app/src/a.js'' ''Button''],
      Inr (new_processor sample_tail (Wrapped ''Button'' True ''Button'')
             [LazyValue ''color'' ''color'' None]))"
    by (simp add: sample_tail_def)
  with sample_unresolved show ?thesis by blast
qed

text \<open>
  C4 as stated fails: Button, imported from ui-kit, cannot be resolved; the callback
  answers false for it, and the component is not treated as styled-aware: it is the
  foreign reference, and Button is not among the dependencies of the processor.
\<close>

theorem unresolved_import_not_in_scope:
  "fst (isMatched sample_environment sample_tail ''Button'' (Some ''/app/package.json'')
          ''ui-kit'') = False \<and>
   StyledProcessor sample_environment sample_tail imported_params \<noteq>
     ([unresolved_warning ''ui-kit'' ''/app/src/a.js'' ''Button''],
      Inr (new_processor sample_tail (Wrapped ''Button'' False ''Button'')
             [LazyValue ''color'' ''color'' None,
              LazyValue ''Button'' ''Button'' (Some [''ui-kit''])])) \<and>
   StyledProcessor sample_environment sample_tail imported_params =
     ([unresolved_warning ''ui-kit'' ''/app/src/a.js'' ''Button''],
      Inr (new_processor sample_tail (Wrapped ''Button'' True ''Button'')
             [LazyValue ''color'' ''color'' None]))"
  by (simp add: isMatched_def StyledProcessor_def imported_params_def sample_environment_def
      sample_tail_def Let_def sample_options_def new_processor_def)

subsection \<open>Claim C6: the interpolation validator\<close>

lemma Number_isFinite_iff:
  "typeof v = T_number \<and> Number_isFinite v \<longleftrightarrow> (\<exists>r. v = JSNumber (Finite r))"
  by (cases "(v)" rule: Number_isFinite.cases) auto

lemma throwIfInvalid_accepts: "throwIfInvalid h v c = Inr () \<longleftrightarrow> accepted h v"
  unfolding accepted_def Number_isFinite_iff [symmetric]
  by (simp add: throwIfInvalid_def Let_def)

lemma property_truthy_object:
  "truthy (get_property v k) \<Longrightarrow> truthy v \<and> typeof v \<noteq> T_number"
  by (cases v) simp_all

text \<open>
  C6, as the code has it. The validator accepts exactly the functions, the strings,
  the finite numbers and the values the serializable predicate recognizes; 42 and
  every string are accepted; NaN and Infinity, unless the predicate recognizes them,
  are rejected with the InvalidInterpolationError. A value that is not accepted and
  whose \<^verbatim>\<open>stack\<close> and \<^verbatim>\<open>message\<close> are both truthy is rejected with the EvaluationError,
  whose text holds the message (the message itself when it is a string, so a
  non-empty one). Every other value that is not accepted, one whose \<^verbatim>\<open>message\<close> or
  \<^verbatim>\<open>stack\<close> is there but falsy included, is rejected with the
  InvalidInterpolationError, whose text holds the rendering of the value. (A value
  with a truthy property is not a number: a number has no properties.)
\<close>

theorem throwIfInvalid_outcomes:
  "(throwIfInvalid h v c = Inr () \<longleftrightarrow> accepted h v) \<and>
   throwIfInvalid h (JSNumber (Finite 42)) c = Inr () \<and>
   throwIfInvalid h (JSString s) c = Inr () \<and>
   (\<not> isSerializable h (JSNumber NaN) \<longrightarrow>
      throwIfInvalid h (JSNumber NaN) c =
        Inl (InvalidInterpolationError
              (invalid_interpolation_message (String_of h (JSNumber NaN)) c))) \<and>
   (\<not> isSerializable h (JSNumber Infinity) \<longrightarrow>
      throwIfInvalid h (JSNumber Infinity) c =
        Inl (InvalidInterpolationError
              (invalid_interpolation_message (String_of h (JSNumber Infinity)) c))) \<and>
   (\<not> accepted h v \<and> truthy (get_property v ''stack'') \<and>
    get_property v ''message'' = JSString m \<and> m \<noteq> [] \<longrightarrow>
      throwIfInvalid h v c = Inl (EvaluationError (evaluation_message m))) \<and>
   (\<not> accepted h v \<and> truthy (get_property v ''stack'') \<and>
    truthy (get_property v ''message'') \<longrightarrow>
      throwIfInvalid h v c =
        Inl (EvaluationError
              (evaluation_message (in_template h (get_property v ''message''))))) \<and>
   (\<not> accepted h v \<and>
    (\<not> truthy (get_property v ''stack'') \<or> \<not> truthy (get_property v ''message'')) \<longrightarrow>
      throwIfInvalid h v c =
        Inl (InvalidInterpolationError
              (invalid_interpolation_message
                 (if typeof v = T_object then JSON_stringify h v else String_of h v) c)))"
proof (intro conjI impI)
  show "throwIfInvalid h v c = Inr () \<longleftrightarrow> accepted h v" by (rule throwIfInvalid_accepts)
  show "throwIfInvalid h (JSNumber (Finite 42)) c = Inr ()" by (simp add: throwIfInvalid_def)
  show "throwIfInvalid h (JSString s) c = Inr ()" by (simp add: throwIfInvalid_def)
  show "throwIfInvalid h (JSNumber NaN) c =
        Inl (InvalidInterpolationError
              (invalid_interpolation_message (String_of h (JSNumber NaN)) c))"
    if "\<not> isSerializable h (JSNumber NaN)"
    using that by (simp add: throwIfInvalid_def)
  show "throwIfInvalid h (JSNumber Infinity) c =
        Inl (InvalidInterpolationError
              (invalid_interpolation_message (String_of h (JSNumber Infinity)) c))"
    if "\<not> isSerializable h (JSNumber Infinity)"
    using that by (simp add: throwIfInvalid_def)
  have general: "throwIfInvalid h v c =
        Inl (EvaluationError
              (evaluation_message (in_template h (get_property v ''message''))))"
    if a: "\<not> accepted h v \<and> truthy (get_property v ''stack'') \<and>
       truthy (get_property v ''message'')"
  proof -
    from a have n: "\<not> (typeof v = T_function \<or> typeof v = T_string \<or>
         (typeof v = T_number \<and> Number_isFinite v) \<or> isSerializable h v)"
      unfolding accepted_def Number_isFinite_iff [symmetric] by simp
    from a property_truthy_object [of v "''stack''"]
    have "truthy v \<and> typeof v \<noteq> T_number" by simp
    with a n show ?thesis by (simp add: throwIfInvalid_def)
  qed
  show "throwIfInvalid h v c =
        Inl (EvaluationError
              (evaluation_message (in_template h (get_property v ''message''))))"
    if "\<not> accepted h v \<and> truthy (get_property v ''stack'') \<and>
       truthy (get_property v ''message'')"
    using that by (rule general)
  show "throwIfInvalid h v c = Inl (EvaluationError (evaluation_message m))"
    if a: "\<not> accepted h v \<and> truthy (get_property v ''stack'') \<and>
       get_property v ''message'' = JSString m \<and> m \<noteq> []"
  proof -
    from a have "\<not> accepted h v \<and> truthy (get_property v ''stack'') \<and>
       truthy (get_property v ''message'')" by simp
    from general [OF this] a show ?thesis by (simp add: in_template_def)
  qed
  show "throwIfInvalid h v c =
        Inl (InvalidInterpolationError
              (invalid_interpolation_message
                 (if typeof v = T_object then JSON_stringify h v else String_of h v) c))"
    if a: "\<not> accepted h v \<and>
       (\<not> truthy (get_property v ''stack'') \<or> \<not> truthy (get_property v ''message''))"
  proof -
    from a have n: "\<not> (typeof v = T_function \<or> typeof v = T_string \<or>
         (typeof v = T_number \<and> Number_isFinite v) \<or> isSerializable h v)"
      unfolding accepted_def Number_isFinite_iff [symmetric] by simp
    from a have "\<not> (truthy v \<and> typeof v \<noteq> T_number \<and> truthy (get_property v ''stack'') \<and>
        truthy (get_property v ''message''))" by blast
    with n show ?thesis by (simp add: throwIfInvalid_def Let_def)
  qed
qed

theorem throwIfInvalid_outcomes_witness:
  "\<not> isSerializable sample_validator (JSNumber NaN) \<and>
   throwIfInvalid sample_validator (JSNumber NaN) ''props.size'' =
     Inl (InvalidInterpolationError (invalid_interpolation_message ''NaN'' ''props.size'')) \<and>
   \<not> isSerializable sample_validator (JSNumber Infinity) \<and>
   throwIfInvalid sample_validator (JSNumber Infinity) ''props.size'' =
     Inl (InvalidInterpolationError (invalid_interpolation_message ''Infinity'' ''props.size'')) \<and>
   \<not> accepted sample_validator reference_error \<and>
   truthy (get_property reference_error ''stack'') \<and>
   truthy (get_property reference_error ''message'') \<and>
   throwIfInvalid sample_validator reference_error ''props.size'' =
     Inl (EvaluationError (evaluation_message ''window is not defined'')) \<and>
   \<not> accepted sample_validator empty_stack_error \<and>
   \<not> truthy (get_property empty_stack_error ''stack'') \<and>
   throwIfInvalid sample_validator empty_stack_error ''props.size'' =
     Inl (InvalidInterpolationError (invalid_interpolation_message ''{}'' ''props.size''))"
proof -
  note e = throwIfInvalid_outcomes [of sample_validator reference_error "''props.size''" "[]"
      "''window is not defined''"]
  note f = throwIfInvalid_outcomes [of sample_validator empty_stack_error "''props.size''" "[]"
      "[]"]
  have a: "\<not> isSerializable sample_validator (JSNumber NaN)"
    "\<not> isSerializable sample_validator (JSNumber Infinity)"
    by (simp_all add: sample_validator_def)
  have b: "\<not> accepted sample_validator reference_error"
    "truthy (get_property reference_error ''stack'')"
    "truthy (get_property reference_error ''message'')"
    "get_property reference_error ''message'' = JSString ''window is not defined''"
    by (simp_all add: sample_validator_def reference_error_def accepted_def)
  have c: "\<not> accepted sample_validator empty_stack_error"
    "\<not> truthy (get_property empty_stack_error ''stack'')"
    "typeof empty_stack_error = T_object"
    by (simp_all add: sample_validator_def empty_stack_error_def accepted_def)
  from e a have 1: "throwIfInvalid sample_validator (JSNumber NaN) ''props.size'' =
     Inl (InvalidInterpolationError (invalid_interpolation_message ''NaN'' ''props.size''))"
    by (simp add: sample_validator_def)
  from e a have 2: "throwIfInvalid sample_validator (JSNumber Infinity) ''props.size'' =
     Inl (InvalidInterpolationError (invalid_interpolation_message ''Infinity'' ''props.size''))"
    by (simp add: sample_validator_def)
  from e b have 3: "throwIfInvalid sample_validator reference_error ''props.size'' =
     Inl (EvaluationError (evaluation_message ''window is not defined''))"
    by simp
  from f c have "throwIfInvalid sample_validator empty_stack_error ''props.size'' =
     Inl (InvalidInterpolationError
           (invalid_interpolation_message (JSON_stringify sample_validator empty_stack_error)
              ''props.size''))"
    by simp
  then have 4: "throwIfInvalid sample_validator empty_stack_error ''props.size'' =
     Inl (InvalidInterpolationError (invalid_interpolation_message ''{}'' ''props.size''))"
    by (simp add: sample_validator_def)
  from a b(1,2,3) c(1,2) 1 2 3 4 show ?thesis by blast
qed

text \<open>
  C6 as stated fails: the error of \<^verbatim>\<open>throw new Error()\<close> is not a number and has both a
  \<^verbatim>\<open>message\<close> and a \<^verbatim>\<open>stack\<close>, but its message is empty, which is falsy, and it is
  rejected with the InvalidInterpolationError; so is an error whose stack is empty.
\<close>

theorem empty_message_not_evaluation_error:
  "typeof empty_message_error \<noteq> T_number \<and>
   get_property empty_message_error ''message'' = JSString [] \<and>
   get_property empty_message_error ''stack'' = JSString ''Error at a.js:1:7'' \<and>
   throwIfInvalid sample_validator empty_message_error ''props.size'' =
     Inl (InvalidInterpolationError (invalid_interpolation_message ''{}'' ''props.size'')) \<and>
   typeof empty_stack_error \<noteq> T_number \<and>
   get_property empty_stack_error ''message'' = JSString ''boom'' \<and>
   get_property empty_stack_error ''stack'' = JSString [] \<and>
   throwIfInvalid sample_validator empty_stack_error ''props.size'' =
     Inl (InvalidInterpolationError (invalid_interpolation_message ''{}'' ''props.size''))"
  by (simp add: throwIfInvalid_def empty_message_error_def empty_stack_error_def
      sample_validator_def)

subsection \<open>Claim C7: a custom id generator\<close>

lemma run_reader_snd: "snd (run_reader x n) = n + index_reads x n"
  by (induction x arbitrary: n) simp_all

lemma run_reader_reads: "run_reader x n = (r, m) \<Longrightarrow> m = n + index_reads x n"
  using run_reader_snd [of x n] by simp

lemma getCustomVariableId_effect:
  assumes "getCustomVariableId h p src un css = (r, p1)"
  shows "variablesCache p1 = variablesCache p"
    and "slug p1 = slug p"
    and "variableIdx p1 = variableIdx p + generator_reads h p src un css"
  using assms
  by (auto simp: getCustomVariableId_def generator_reads_def getIndex_def Let_def
      split: option.splits variable_name_slug.splits if_splits prod.splits
      dest: run_reader_reads)

text \<open>
  What the allocator does on a cache miss, whatever generator is configured. The
  generator stores nothing in the cache. When it yields a non-empty string, the
  allocator returns it sanitized and leaves the cache as it was; otherwise the
  default branch consumes exactly one more counter value, and stores and returns the
  id built from it. A function consumes one counter value for each read of the
  index, none when it does not read it; a non-empty template consumes one on every
  call.
\<close>

lemma custom_generator_on_miss:
  assumes "variablesCache p (src @ un) = None"
    and "getCustomVariableId h p src un css = (r, p1)"
  shows "variablesCache p1 = variablesCache p \<and>
         variableIdx p1 = variableIdx p + generator_reads h p src un css \<and>
         (\<forall>i. r = Some i \<and> i \<noteq> [] \<longrightarrow>
            getVariableId h p src un css = (toValidCSSIdentifier h i, p1)) \<and>
         (r = None \<or> r = Some [] \<longrightarrow>
            getVariableId h p src un css =
              (default_id p (variableIdx p1),
               p1\<lparr>variableIdx := variableIdx p1 + 1,
                  variablesCache :=
                    (variablesCache p)(src @ un \<mapsto> default_id p (variableIdx p1))\<rparr>))"
proof -
  note e = getCustomVariableId_effect [OF assms(2)]
  have "getVariableId h p src un css = (toValidCSSIdentifier h i, p1)"
    if "r = Some i \<and> i \<noteq> []" for i
    using that assms by (simp add: getVariableId_def Let_def)
  moreover have "getVariableId h p src un css =
      (default_id p (variableIdx p1),
       p1\<lparr>variableIdx := variableIdx p1 + 1,
          variablesCache := (variablesCache p)(src @ un \<mapsto> default_id p (variableIdx p1))\<rparr>)"
    if "r = None \<or> r = Some []"
    using that assms e(1,2)
    by (auto simp: getVariableId_def Let_def getIndex_def default_id_def)
  ultimately show ?thesis using e by blast
qed

lemma function_custom:
  "getCustomVariableId sample_helpers function_processor ''a'' ''px'' ''width: '' =
     (Some ''x a'', function_processor)"
  by (simp add: getCustomVariableId_def function_processor_def getVariableContext_def
      sample_processor_def)

lemma reading_custom:
  "getCustomVariableId sample_helpers reading_processor ''a'' ''px'' ''width: '' =
     (Some ''v0'', reading_processor\<lparr>variableIdx := 1\<rparr>)"
  by (simp add: getCustomVariableId_def reading_processor_def getVariableContext_def
      sample_processor_def Number_toString_small)

text \<open>
  The function path keeps the accessor lazy. A function that does not read the
  index: its result is sanitized, nothing else changes. A function that reads the
  index once: the counter goes from 0 to 1.
\<close>

lemma function_generator_is_lazy:
  "getVariableId sample_helpers function_processor ''a'' ''px'' ''width: '' =
     (''x_a'', function_processor) \<and>
   getVariableId sample_helpers reading_processor ''a'' ''px'' ''width: '' =
     (''v0'', reading_processor\<lparr>variableIdx := 1\<rparr>)"
proof -
  have m: "variablesCache function_processor (''a'' @ ''px'') = None"
    by (simp add: function_processor_def sample_processor_def)
  from custom_generator_on_miss [OF m function_custom]
  have 1: "getVariableId sample_helpers function_processor ''a'' ''px'' ''width: '' =
      (''x_a'', function_processor)"
    by (simp add: sample_helpers_def)
  have m': "variablesCache reading_processor (''a'' @ ''px'') = None"
    by (simp add: reading_processor_def sample_processor_def)
  from custom_generator_on_miss [OF m' reading_custom]
  have 2: "getVariableId sample_helpers reading_processor ''a'' ''px'' ''width: '' =
      (''v0'', reading_processor\<lparr>variableIdx := 1\<rparr>)"
    by (simp add: sample_helpers_def)
  from 1 2 show ?thesis by blast
qed

text \<open>
  C7 says that a custom generator that yields a non-empty string consumes no counter
  value unless it reads the index, the accessor being lazy. The code evaluated at the
  template generator \<^verbatim>\<open>v\<close>, which does not mention the index, on a new processor: the
  allocator returns the custom id and caches nothing, and the counter has gone from
  0 to 1, because \<^verbatim>\<open>{ ...context }\<close> has called the accessor.
\<close>

theorem template_hit_consumes_counter:
  "variableNameSlug (options template_processor) = Some (SlugTemplate ''v'') \<and>
   variablesCache template_processor (''a'' @ ''px'') = None \<and>
   variableIdx template_processor = 0 \<and>
   fst (getVariableId sample_helpers template_processor ''a'' ''px'' ''width: '') = ''v'' \<and>
   variablesCache (snd (getVariableId sample_helpers template_processor ''a'' ''px'' ''width: ''))
     (''a'' @ ''px'') = None \<and>
   variableIdx (snd (getVariableId sample_helpers template_processor ''a'' ''px'' ''width: '')) = 1"
  by (simp add: getVariableId_def getCustomVariableId_def getIndex_def Let_def
      template_processor_def sample_processor_def sample_helpers_def)

subsection \<open>Claim C8: the vars of the runtime wrapper\<close>

lemma set_var_update: "set_var vs i = AList.update (interpolation_id i) (var_items i) vs"
  by (simp add: set_var_def var_items_def Let_def)

lemma fold_vars_distinct:
  "distinct (map fst vs) \<Longrightarrow> distinct (map fst (foldl set_var vs is))"
  by (induction "is" arbitrary: vs) (simp_all add: set_var_update distinct_update)

lemma fold_vars_keys:
  "fst ` set (foldl set_var vs is) = fst ` set vs \<union> interpolation_id ` set is"
  by (induction "is" arbitrary: vs) (auto simp: set_var_update dom_update)

lemma update_entries:
  assumes "distinct (map fst al)" "(k', v') \<in> set (AList.update k v al)"
  shows "(k', v') = (k, v) \<or> (k', v') \<in> set al"
proof -
  from assms(1) have "distinct (map fst (AList.update k v al))" by (rule distinct_update)
  with assms(2) have "map_of (AList.update k v al) k' = Some v'" by simp
  then have "((map_of al)(k \<mapsto> v)) k' = Some v'" by (simp add: update_conv')
  then show ?thesis by (auto split: if_splits dest: map_of_SomeD)
qed

lemma fold_vars_entries:
  assumes "distinct (map fst vs)" "(k, items) \<in> set (foldl set_var vs is)"
  shows "(k, items) \<in> set vs \<or> (\<exists>i \<in> set is. k = interpolation_id i \<and> items = var_items i)"
  using assms
proof (induction "is" arbitrary: vs)
  case Nil
  then show ?case by simp
next
  case (Cons i "is")
  from Cons.prems(1) have d: "distinct (map fst (set_var vs i))"
    by (simp add: set_var_update distinct_update)
  from Cons.prems(2) have "(k, items) \<in> set (foldl set_var (set_var vs i) is)" by simp
  from Cons.IH [OF d this] show ?case
  proof
    assume "(k, items) \<in> set (set_var vs i)"
    with update_entries [OF Cons.prems(1)] show ?thesis
      by (auto simp: set_var_update)
  next
    assume "\<exists>i \<in> set is. k = interpolation_id i \<and> items = var_items i"
    then show ?thesis by auto
  qed
qed

lemma two_same:
  assumes "variableNameSlug (options p) = None" "interpolations p = []"
  shows "interpolations (snd (addInterpolations h p [(n1, c1, src, un), (n2, c2, src, un)])) =
     [\<lparr> interpolation_id = fst (getVariableId h p src un c1), interpolation_node = n1,
         interpolation_source = src, interpolation_unit = un \<rparr>,
      \<lparr> interpolation_id = fst (getVariableId h p src un c1), interpolation_node = n2,
         interpolation_source = src, interpolation_unit = un \<rparr>]"
  using assms
  by (cases "variablesCache p (src @ un)")
     (simp_all add: addInterpolation_def getVariableId_def getCustomVariableId_def
        getIndex_def Let_def)

lemma recorded_vars:
  "vars (getProps sample_elements recorded_processor) =
     Some [(''s1-0'', [CallExpression (Identifier ''a'') [], StringLiteral ''px'' None]),
           (''s1-1'', [CallExpression (Identifier ''b'') []])]"
  by (simp add: recorded_processor_def sample_requests_def sample_processor_def
      sample_options_def addInterpolation_def getVariableId_def getCustomVariableId_def
      getIndex_def Let_def Number_toString_small getProps_def set_var_def)

text \<open>
  C8. \<^verbatim>\<open>vars\<close> is present exactly when an interpolation was recorded. It has one entry
  for each id among the interpolations, no id twice, and each entry holds, for an
  interpolation with that id, the call of its expression with no argument, followed
  by its unit as a string literal only when the unit is not empty. Two interpolations
  with the same source and unit, recorded with the default allocator on a processor
  that had none, give exactly one entry, under the id both were given.
\<close>

theorem getProps_vars:
  "(vars (getProps e p) \<noteq> None \<longleftrightarrow> interpolations p \<noteq> []) \<and>
   (\<forall>vs. vars (getProps e p) = Some vs \<longrightarrow>
      distinct (map fst vs) \<and>
      fst ` set vs = interpolation_id ` set (interpolations p) \<and>
      (\<forall>(k, items) \<in> set vs.
         \<exists>i \<in> set (interpolations p). k = interpolation_id i \<and> items = var_items i)) \<and>
   (variableNameSlug (options p) = None \<and> interpolations p = [] \<longrightarrow>
      vars (getProps e (snd (addInterpolations h p [(n1, c1, src, un), (n2, c2, src, un)]))) =
        Some [(fst (getVariableId h p src un c1),
               var_items \<lparr> interpolation_id = fst (getVariableId h p src un c1),
                           interpolation_node = n2, interpolation_source = src,
                           interpolation_unit = un \<rparr>)])"
proof (intro conjI allI impI)
  show "vars (getProps e p) \<noteq> None \<longleftrightarrow> interpolations p \<noteq> []"
    by (simp add: getProps_def)
next
  fix vs assume "vars (getProps e p) = Some vs"
  then have vs: "vs = foldl set_var [] (interpolations p)"
    by (simp add: getProps_def split: if_splits)
  show "distinct (map fst vs)" unfolding vs by (rule fold_vars_distinct) simp
  show "fst ` set vs = interpolation_id ` set (interpolations p)"
    unfolding vs by (simp add: fold_vars_keys)
  show "\<forall>(k, items) \<in> set vs.
         \<exists>i \<in> set (interpolations p). k = interpolation_id i \<and> items = var_items i"
    unfolding vs using fold_vars_entries [of "[]" _ _ "interpolations p"] by auto
next
  assume "variableNameSlug (options p) = None \<and> interpolations p = []"
  then have a: "variableNameSlug (options p) = None" and b: "interpolations p = []" by simp_all
  note two_same [OF a b, of h n1 c1 src un n2 c2]
  then show "vars (getProps e
        (snd (addInterpolations h p [(n1, c1, src, un), (n2, c2, src, un)]))) =
        Some [(fst (getVariableId h p src un c1),
               var_items \<lparr> interpolation_id = fst (getVariableId h p src un c1),
                           interpolation_node = n2, interpolation_source = src,
                           interpolation_unit = un \<rparr>)]"
    by (simp add: getProps_def set_var_update del: addInterpolations.simps)
qed

theorem getProps_vars_witness:
  "vars (getProps sample_elements recorded_processor) =
     Some [(''s1-0'', [CallExpression (Identifier ''a'') [], StringLiteral ''px'' None]),
           (''s1-1'', [CallExpression (Identifier ''b'') []])] \<and>
   distinct (map fst
     [(''s1-0'', [CallExpression (Identifier ''a'') [], StringLiteral ''px'' None]),
      (''s1-1'', [CallExpression (Identifier ''b'') []])]) \<and>
   variableNameSlug (options sample_processor) = None \<and>
   interpolations sample_processor = [] \<and>
   vars (getProps sample_elements
     (snd (addInterpolations sample_helpers sample_processor
        [(Identifier ''a'', ''width: '', ''a'', ''px''),
         (Identifier ''a'', ''; height: '', ''a'', ''px'')]))) =
     Some [(''s1-0'', [CallExpression (Identifier ''a'') [], StringLiteral ''px'' None])]"
proof -
  have a: "variableNameSlug (options sample_processor) = None"
    by (simp add: sample_processor_def sample_options_def)
  have b: "interpolations sample_processor = []"
    by (simp add: sample_processor_def)
  have i: "fst (getVariableId sample_helpers sample_processor ''a'' ''px'' ''width: '') = ''s1-0''"
    by (simp add: getVariableId_def getCustomVariableId_def getIndex_def Let_def
        sample_processor_def sample_options_def Number_toString_small)
  from getProps_vars [where e = sample_elements and p = recorded_processor] recorded_vars
  have 1: "distinct (map fst
     [(''s1-0'', [CallExpression (Identifier ''a'') [], StringLiteral ''px'' None]),
      (''s1-1'', [CallExpression (Identifier ''b'') []])])"
    by blast
  from getProps_vars [where e = sample_elements and p = sample_processor
      and h = sample_helpers and ?n1.0 = "Identifier ''a''" and ?c1.0 = "''width: ''"
      and src = "''a''" and un = "''px''" and ?n2.0 = "Identifier ''a''"
      and ?c2.0 = "''; height: ''"] a b
  have 2: "vars (getProps sample_elements
     (snd (addInterpolations sample_helpers sample_processor
        [(Identifier ''a'', ''width: '', ''a'', ''px''),
         (Identifier ''a'', ''; height: '', ''a'', ''px'')]))) =
     Some [(''s1-0'', [CallExpression (Identifier ''a'') [], StringLiteral ''px'' None])]"
    by (simp add: i var_items_def del: addInterpolations.simps)
  from recorded_vars 1 a b 2 show ?thesis by blast
qed

subsection \<open>Claim C10: the constant string FunctionalComponent\<close>

text \<open>
  C10. A call whose one argument is the constant string FunctionalComponent and a
  call whose one argument is a function value construct the same processor: its
  component is the string FunctionalComponent in both cases. For it, the argument of
  the tag expression is the empty arrow function and not the quoted string literal,
  and \<^verbatim>\<open>toString\<close> renders the argument as an arrow function and not as the quoted tag
  name.
\<close>

theorem functional_component_marker:
  "StyledProcessor env tp
     [c, Call [ConstValue (ConstString ''FunctionalComponent'') s1], Template t] =
   StyledProcessor env tp [c, Call [FunctionValue s2], Template t] \<and>
   StyledProcessor env tp
     [Callee e, Call [ConstValue (ConstString ''FunctionalComponent'') s1], Template t] =
     ([], Inr (new_processor tp (Tag ''FunctionalComponent'') (base_dependencies (Template t)))) \<and>
   component (new_processor tp (Tag ''FunctionalComponent'') deps) = Tag ''FunctionalComponent'' \<and>
   tagExpressionArgument (new_processor tp (Tag ''FunctionalComponent'') deps) =
     ArrowFunctionExpression [] (BlockStatement []) \<and>
   tagExpressionArgument (new_processor tp (Tag ''FunctionalComponent'') deps) \<noteq>
     singleQuotedStringLiteral ''FunctionalComponent'' \<and>
   toString (new_processor tp (Tag ''FunctionalComponent'') deps) =
     tail_tagSourceCode tp @ ''(() => {'' @ ellipsis @ ''})'' @ backtick @ ellipsis @ backtick \<and>
   toString (new_processor tp (Tag ''FunctionalComponent'') deps) \<noteq>
     tail_tagSourceCode tp @ ''('' @ apostrophe @ ''FunctionalComponent'' @ apostrophe @ '')'' @
       backtick @ ellipsis @ backtick"
  by (simp add: StyledProcessor_def tagExpressionArgument_def toString_def new_processor_def
      singleQuotedStringLiteral_def apostrophe_def)

theorem functional_component_marker_witness:
  "StyledProcessor sample_environment sample_tail constant_params =
   StyledProcessor sample_environment sample_tail function_params \<and>
   StyledProcessor sample_environment sample_tail constant_params =
     ([], Inr (new_processor sample_tail (Tag ''FunctionalComponent'') [])) \<and>
   toString (new_processor sample_tail (Tag ''FunctionalComponent'') []) =
     ''styled(() => {'' @ ellipsis @ ''})'' @ backtick @ ellipsis @ backtick"
proof -
  note m = functional_component_marker [where env = sample_environment and tp = sample_tail
      and c = "Callee (Identifier ''styled'')" and e = "Identifier ''styled''"
      and ?s1.0 = "apostrophe @ ''FunctionalComponent'' @ apostrophe"
      and ?s2.0 = "''props => null''" and t = "[]" and deps = "[]"]
  from m have 1: "StyledProcessor sample_environment sample_tail constant_params =
      StyledProcessor sample_environment sample_tail function_params"
    unfolding constant_params_def function_params_def by blast
  from m have "StyledProcessor sample_environment sample_tail constant_params =
      ([], Inr (new_processor sample_tail (Tag ''FunctionalComponent'')
                  (base_dependencies (Template []))))"
    unfolding constant_params_def by blast
  then have 2: "StyledProcessor sample_environment sample_tail constant_params =
      ([], Inr (new_processor sample_tail (Tag ''FunctionalComponent'') []))"
    by simp
  from m have "toString (new_processor sample_tail (Tag ''FunctionalComponent'') []) =
      tail_tagSourceCode sample_tail @ ''(() => {'' @ ellipsis @ ''})'' @ backtick @ ellipsis @
        backtick"
    by blast
  then have 3: "toString (new_processor sample_tail (Tag ''FunctionalComponent'') []) =
      ''styled(() => {'' @ ellipsis @ ''})'' @ backtick @ ellipsis @ backtick"
    by (simp add: sample_tail_def)
  from 1 2 3 show ?thesis by blast
qed

end
